theory Spec2Isabelle
  imports Main
begin

section \<open>SAML identity provider\<close>

text \<open>
  A shallow embedding of \<^verbatim>\<open>src/object/saml_idp.go\<close>: the two response builders
  (\<^verbatim>\<open>NewSamlResponse\<close>, \<^verbatim>\<open>NewSamlResponse11\<close>), the key store (\<^verbatim>\<open>X509Key.GetKeyPair\<close>),
  the metadata builder (\<^verbatim>\<open>GetSamlMeta\<close>) and the request/response pipeline
  (\<^verbatim>\<open>GetSamlResponse\<close>).

  The Go code calls libraries (base64, flate, pem, xml, json, time, uuid, etree, goxmldsig)
  and helpers of the repository that live in other files. What the file itself does with
  element trees is modelled on a small copy of etree's element type; every other
  collaborator is a field of the record \<open>env\<close>, so each theorem holds for whatever these
  collaborators compute. A Go \<^verbatim>\<open>[]byte\<close> and a Go \<^verbatim>\<open>string\<close> are both a \<open>string\<close> here.
\<close>

subsection \<open>Element trees (etree)\<close>

type_synonym bytes = string

text \<open>An attribute is \<^verbatim>\<open>etree.Attr{Space, Key, Value}\<close>: the pair (Space, Key) and the value.\<close>

type_synonym attr = "(string \<times> string) \<times> string"

datatype 'e token = ChildElement 'e | CharData string

datatype element =
  Element (Space: string) (Tag: string) (Attr: "attr list") (Child: "element token list")

text \<open>\<^verbatim>\<open>spaceDecompose\<close>: a name is split at its first colon; without a colon the space is empty.\<close>

definition spaceDecompose :: "string \<Rightarrow> string \<times> string" where
  "spaceDecompose str =
     (case dropWhile (\<lambda>c. c \<noteq> CHR '':'') str of
        [] \<Rightarrow> ('''', str)
      | _ # key \<Rightarrow> (takeWhile (\<lambda>c. c \<noteq> CHR '':'') str, key))"

text \<open>\<^verbatim>\<open>spaceMatch(a, b)\<close>: an empty space in the query matches every space.\<close>

definition spaceMatch :: "string \<Rightarrow> string \<Rightarrow> bool" where
  "spaceMatch a b = (a = '''' \<or> a = b)"

definition NewElement :: "string \<Rightarrow> element" where
  "NewElement full = (case spaceDecompose full of (space, tag) \<Rightarrow> Element space tag [] [])"

text \<open>\<^verbatim>\<open>createAttr\<close>: the first attribute of the same space and key gets the value; otherwise
  the attribute is appended.\<close>

fun createAttr :: "string \<times> string \<Rightarrow> string \<Rightarrow> attr list \<Rightarrow> attr list" where
  "createAttr sk v [] = [(sk, v)]"
| "createAttr sk v ((k, x) # as) = (if k = sk then (k, v) # as else (k, x) # createAttr sk v as)"

definition CreateAttr :: "string \<Rightarrow> string \<Rightarrow> element \<Rightarrow> element" where
  "CreateAttr key v e =
     Element (Space e) (Tag e) (createAttr (spaceDecompose key) v (Attr e)) (Child e)"

definition AddChild :: "element token \<Rightarrow> element \<Rightarrow> element" where
  "AddChild t e = Element (Space e) (Tag e) (Attr e) (Child e @ [t])"

text \<open>\<^verbatim>\<open>SetText\<close> replaces the character data at the front of the children: all leading
  character-data tokens are removed, and a non-empty text is put in front as one token
  (an empty text inserts nothing).\<close>

fun drop_leading_text :: "element token list \<Rightarrow> element token list" where
  "drop_leading_text (CharData d # ts) = drop_leading_text ts"
| "drop_leading_text ts = ts"

definition SetText :: "string \<Rightarrow> element \<Rightarrow> element" where
  "SetText text e =
     Element (Space e) (Tag e) (Attr e)
       (if text = '''' then drop_leading_text (Child e)
        else CharData text # drop_leading_text (Child e))"

text \<open>\<^verbatim>\<open>InsertChildAt(index, t)\<close> for a token \<open>t\<close> that is not nil and has no parent: the token
  goes before position \<open>index\<close>, or to the end when the index is past the last child.\<close>

definition InsertChildAt :: "nat \<Rightarrow> element token \<Rightarrow> element \<Rightarrow> element" where
  "InsertChildAt index t e =
     Element (Space e) (Tag e) (Attr e) (take index (Child e) @ [t] @ drop index (Child e))"

text \<open>
  The builders create a child with \<^verbatim>\<open>parent.CreateElement(tag)\<close> and fill it in afterwards
  through the pointer they got back. A child keeps the position it was created at, so the
  finished tree is the one obtained by finishing each child first and appending it then:
  \<open>populate e attrs children\<close> performs the \<^verbatim>\<open>CreateAttr\<close> calls on \<open>e\<close> in order and
  then appends the finished children in the order of their \<^verbatim>\<open>CreateElement\<close> calls.
\<close>

definition populate :: "element \<Rightarrow> (string \<times> string) list \<Rightarrow> element list \<Rightarrow> element" where
  "populate e attrs children =
     foldl (\<lambda>p c. AddChild (ChildElement c) p)
       (foldl (\<lambda>p (k, v). CreateAttr k v p) e attrs) children"

text \<open>Readers of a tree: \<^verbatim>\<open>SelectAttr\<close> (the value, or \<open>None\<close> for nil), \<^verbatim>\<open>ChildElements\<close>,
  \<^verbatim>\<open>SelectElement\<close> (the first child element of that name, or \<open>None\<close> for nil) and \<^verbatim>\<open>Text\<close>
  (the leading character data).\<close>

definition SelectAttr :: "element \<Rightarrow> string \<Rightarrow> string option" where
  "SelectAttr e key =
     (case spaceDecompose key of (space, skey) \<Rightarrow>
        map_option snd (find (\<lambda>((s, k), v). spaceMatch space s \<and> skey = k) (Attr e)))"

fun ChildElements_of :: "element token list \<Rightarrow> element list" where
  "ChildElements_of [] = []"
| "ChildElements_of (ChildElement c # ts) = c # ChildElements_of ts"
| "ChildElements_of (CharData d # ts) = ChildElements_of ts"

definition ChildElements :: "element \<Rightarrow> element list" where
  "ChildElements e = ChildElements_of (Child e)"

definition SelectElement :: "element \<Rightarrow> string \<Rightarrow> element option" where
  "SelectElement e tag =
     (case spaceDecompose tag of (space, stag) \<Rightarrow>
        find (\<lambda>c. spaceMatch space (Space c) \<and> stag = Tag c) (ChildElements e))"

fun leading_text :: "element token list \<Rightarrow> string" where
  "leading_text (CharData d # ts) = d @ leading_text ts"
| "leading_text ts = []"

definition Text :: "element \<Rightarrow> string" where
  "Text e = leading_text (Child e)"

text \<open>Follows a path of child names from an element (\<^verbatim>\<open>FindElement\<close> on a relative path).\<close>

fun FindElement :: "element \<Rightarrow> string list \<Rightarrow> element option" where
  "FindElement e [] = Some e"
| "FindElement e (tag # path) =
     (case SelectElement e tag of None \<Rightarrow> None | Some c \<Rightarrow> FindElement c path)"

text \<open>The value of an attribute of the element at the end of a path.\<close>

definition attr_at :: "element \<Rightarrow> string list \<Rightarrow> string \<Rightarrow> string option" where
  "attr_at e path key = Option.bind (FindElement e path) (\<lambda>c. SelectAttr c key)"

subsection \<open>Data the file works on\<close>

text \<open>The fields of \<^verbatim>\<open>User\<close>, \<^verbatim>\<open>Application\<close>, \<^verbatim>\<open>Cert\<close> (declared elsewhere in the package) and
  of go-saml's \<^verbatim>\<open>AuthnRequest\<close> that this file reads or writes.\<close>

record User =
  Name :: string
  Email :: string
  DisplayName :: string

record Application =
  Owner :: string
  Name :: string
  RedirectUris :: "string list"
  SamlReplyUrl :: string
  EnableSamlCompress :: bool

record Cert =
  Certificate :: string
  PrivateKey :: string

record Issuer =
  Url :: string

record AuthnRequest =
  ID :: string
  Issuer :: Issuer
  AssertionConsumerServiceURL :: string

record X509Key =
  X509Certificate :: string
  PrivateKey :: string

text \<open>A JSON value as \<^verbatim>\<open>json.Unmarshal\<close> meets it inside the object that \<^verbatim>\<open>json.Marshal(user)\<close>
  wrote.\<close>

datatype jvalue = JString string | JNull | JNumber int | JBool bool | JArray | JObject

text \<open>
  The errors \<^verbatim>\<open>GetSamlResponse\<close> can return, one constructor for each \<^verbatim>\<open>return\<close> that carries
  an error, named after the failure the statement reports; the argument is the text of the
  library's error (or the issuer URL). \<open>SignatureError\<close> is the error value that
  \<^verbatim>\<open>ConstructSignature\<close> hands back.
\<close>

datatype error =
    DecodeError_base64 string
  | DecodeError_inflate string
  | MalformedRequestError string
  | UnauthorizedIssuerError string
  | MissingDestinationError
  | SignatureError string
  | SerializationError string
  | CompressionError_NewWriter string
  | CompressionError_Write string
  | CompressionError_Close string

text \<open>The message of each error, as the \<^verbatim>\<open>fmt.Errorf\<close> calls format it; a library's error
  that is returned as it is keeps its own text.\<close>

fun Error :: "error \<Rightarrow> string" where
  "Error (DecodeError_base64 e) = ''err: Failed to decode SAML request , '' @ e"
| "Error (DecodeError_inflate e) = e"
| "Error (MalformedRequestError e) =
     ''err: Failed to unmarshal AuthnRequest, please check the SAML request. '' @ e"
| "Error (UnauthorizedIssuerError url) =
     ''err: Issuer URI: '' @ url @ '' doesn't exist in the allowed Redirect URI list''"
| "Error MissingDestinationError =
     ''err: SAML request don't has attribute 'AssertionConsumerServiceURL' in <samlp:AuthnRequest>''"
| "Error (SignatureError e) = e"
| "Error (SerializationError e) =
     ''err: Failed to serializes the SAML request into bytes, '' @ e"
| "Error (CompressionError_NewWriter e) = e"
| "Error (CompressionError_Write e) = e"
| "Error (CompressionError_Close e) = e"

text \<open>A call either panics (a nil pointer is dereferenced, or \<^verbatim>\<open>panic(err)\<close> is called) or
  returns.\<close>

datatype 'a outcome = Panicked string | Returned 'a

text \<open>The four values \<^verbatim>\<open>GetSamlResponse\<close> returns: payload, destination, HTTP method, error
  (\<open>None\<close> is nil).\<close>

type_synonym ret = "string \<times> string \<times> string \<times> error option"

subsection \<open>Collaborators and ambient effects\<close>

text \<open>
  Time is an instant in nanoseconds; \<^verbatim>\<open>time.Duration\<close> counts nanoseconds too.
  \<^verbatim>\<open>time.Now()\<close> and \<^verbatim>\<open>uuid.NewV4()\<close> are ambient: the \<open>world\<close> counts how often each has
  been called, and \<open>clock env k\<close> and \<open>uuids env k\<close> are what call number \<open>k\<close> returns.
\<close>

type_synonym rsa_PrivateKey = bytes

record world =
  now_calls :: nat
  uuid_calls :: nat

record env =
  base64_DecodeString :: "string \<Rightarrow> bytes \<times> string option"
  base64_EncodeToString :: "bytes \<Rightarrow> string"
  flate_Inflate :: "bytes \<Rightarrow> string + bytes"
  xml_Unmarshal :: "bytes \<Rightarrow> string + AuthnRequest"
  getCertByApplication :: "Application \<Rightarrow> Cert option"
  pem_Decode :: "bytes \<Rightarrow> bytes option"
  getOriginFromHost :: "string \<Rightarrow> string \<times> string"
  clock :: "nat \<Rightarrow> int"
  Format_RFC3339 :: "int \<Rightarrow> string"
  uuids :: "nat \<Rightarrow> string"
  getRolesString :: "User \<Rightarrow> string"
  ParseRSAPrivateKeyFromPEM :: "bytes \<Rightarrow> string + rsa_PrivateKey"
  dsig_ConstructSignature ::
    "rsa_PrivateKey option \<times> bytes \<times> string option \<Rightarrow> element \<Rightarrow> bool \<Rightarrow> string + element"
  WriteToBytes :: "element \<Rightarrow> string + bytes"
  flate_NewWriter :: "string option"
  flate_Write :: "bytes \<Rightarrow> string option"
  flate_Close :: "bytes \<Rightarrow> string + bytes"
  json_Marshal :: "User \<Rightarrow> (string \<times> jvalue) list option"
  map_range :: "(string \<times> string) list \<Rightarrow> (string \<times> string) list"

text \<open>
  \<^item> \<open>base64_DecodeString\<close> gives both results of \<^verbatim>\<open>DecodeString\<close>: the bytes and the error
    (\<open>None\<close> is nil).
  \<^item> \<open>flate_Inflate\<close> is \<^verbatim>\<open>flate.NewReader\<close> followed by \<^verbatim>\<open>io.Copy\<close>; \<open>flate_NewWriter\<close>,
    \<open>flate_Write\<close> and \<open>flate_Close\<close> are the three calls of the compressor, the last one
    giving the bytes of the buffer.
  \<^item> \<open>pem_Decode\<close> gives \<^verbatim>\<open>block.Bytes\<close>, or \<open>None\<close> when \<^verbatim>\<open>pem.Decode\<close> returns a nil block;
    \<open>getCertByApplication\<close> gives \<open>None\<close> for a nil certificate.
  \<^item> \<open>getRolesString\<close> is \<^verbatim>\<open>ExtendUserWithRolesAndPermissions(user)\<close> followed by
    \<^verbatim>\<open>user.getRolesString()\<close>.
  \<^item> \<open>dsig_ConstructSignature\<close> is goxmldsig's \<^verbatim>\<open>ConstructSignature\<close> (with the hash of the
    context, which the caller fixes to SHA-1); its first argument is what the key store's
    \<^verbatim>\<open>GetKeyPair\<close> returns when the library calls it. \<open>Inl e\<close> is the result (nil, e).
  \<^item> \<open>json_Marshal\<close> gives the members of the JSON object written for a user, or \<open>None\<close>
    when marshalling fails and the data is empty.
  \<^item> \<open>map_range\<close> gives the entries of a \<^verbatim>\<open>map[string]string\<close> in the order in which a
    \<^verbatim>\<open>range\<close> loop visits them, which Go does not fix.
\<close>

definition time_Now :: "env \<Rightarrow> world \<Rightarrow> int \<times> world" where
  "time_Now E w = (clock E (now_calls w), w\<lparr>now_calls := Suc (now_calls w)\<rparr>)"

definition uuid_NewV4 :: "env \<Rightarrow> world \<Rightarrow> string \<times> world" where
  "uuid_NewV4 E w = (uuids E (uuid_calls w), w\<lparr>uuid_calls := Suc (uuid_calls w)\<rparr>)"

definition Hour :: int where
  "Hour = 3600 * 1000000000"

text \<open>\<^verbatim>\<open>t.Add(d)\<close>.\<close>

definition Add :: "int \<Rightarrow> int \<Rightarrow> int" where
  "Add t d = t + d"

subsection \<open>NewSamlResponse (lines 37--112)\<close>

text \<open>An element that only carries text: \<^verbatim>\<open>parent.CreateElement(tag).SetText(text)\<close>.\<close>

definition text_element :: "string \<Rightarrow> string \<Rightarrow> element" where
  "text_element tag text = SetText text (NewElement tag)"

text \<open>One \<^verbatim>\<open>saml:Attribute\<close> of the attribute statement: name, name format and a typed value.\<close>

definition saml_Attribute :: "string \<Rightarrow> string \<Rightarrow> element" where
  "saml_Attribute name v =
     populate (NewElement ''saml:Attribute'')
       [(''Name'', name),
        (''NameFormat'', ''urn:oasis:names:tc:SAML:2.0:attrname-format:basic'')]
       [SetText v (populate (NewElement ''saml:AttributeValue'') [(''xsi:type'', ''xs:string'')] [])]"

text \<open>
  The clock is read twice (\<^verbatim>\<open>now\<close>, \<^verbatim>\<open>expireTime\<close>) and three identifiers are drawn
  (response, assertion, session index). The Go function also returns an error, which is
  always nil.
\<close>

definition NewSamlResponse ::
  "env \<Rightarrow> User \<Rightarrow> string \<Rightarrow> string \<Rightarrow> string \<Rightarrow> string \<Rightarrow> string \<Rightarrow> string list \<Rightarrow> world
     \<Rightarrow> element \<times> world" where
  "NewSamlResponse E user host certificate destination iss requestId redirectUri w =
     (let (t_now, w1) = time_Now E w;
          now = Format_RFC3339 E t_now;
          (t_exp, w2) = time_Now E w1;
          expireTime = Format_RFC3339 E (Add t_exp (Hour * 24));
          (arId, w3) = uuid_NewV4 E w2;
          (assertionId, w4) = uuid_NewV4 E w3;
          (sessionIndex, w5) = uuid_NewV4 E w4;
          subjectConfirmationData =
            populate (NewElement ''saml:SubjectConfirmationData'')
              [(''InResponseTo'', requestId),
               (''Recipient'', destination),
               (''NotOnOrAfter'', expireTime)] [];
          subjectConfirmation =
            populate (NewElement ''saml:SubjectConfirmation'')
              [(''Method'', ''urn:oasis:names:tc:SAML:2.0:cm:bearer'')]
              [subjectConfirmationData];
          subject =
            populate (NewElement ''saml:Subject'') []
              [text_element ''saml:NameID'' (User.Name user), subjectConfirmation];
          audience =
            populate (NewElement ''saml:AudienceRestriction'') []
              (text_element ''saml:Audience'' iss # map (text_element ''saml:Audience'') redirectUri);
          condition =
            populate (NewElement ''saml:Conditions'')
              [(''NotBefore'', now), (''NotOnOrAfter'', expireTime)]
              [audience];
          authnStatement =
            populate (NewElement ''saml:AuthnStatement'')
              [(''AuthnInstant'', now),
               (''SessionIndex'', ''_'' @ sessionIndex),
               (''SessionNotOnOrAfter'', expireTime)]
              [populate (NewElement ''saml:AuthnContext'') []
                 [text_element ''saml:AuthnContextClassRef''
                    ''urn:oasis:names:tc:SAML:2.0:ac:classes:PasswordProtectedTransport'']];
          attributes =
            populate (NewElement ''saml:AttributeStatement'') []
              [saml_Attribute ''Email'' (Email user),
               saml_Attribute ''Name'' (User.Name user),
               saml_Attribute ''DisplayName'' (DisplayName user),
               saml_Attribute ''Roles'' (getRolesString E user)];
          assertion =
            populate (NewElement ''saml:Assertion'')
              [(''xmlns:xsi'', ''http://www.w3.org/2001/XMLSchema-instance''),
               (''xmlns:xs'', ''http://www.w3.org/2001/XMLSchema''),
               (''ID'', ''_'' @ assertionId),
               (''Version'', ''2.0''),
               (''IssueInstant'', now)]
              [text_element ''saml:Issuer'' host, subject, condition, authnStatement, attributes];
          samlResponse =
            populate (Element ''samlp'' ''Response'' [] [])
              [(''xmlns:samlp'', ''urn:oasis:names:tc:SAML:2.0:protocol''),
               (''xmlns:saml'', ''urn:oasis:names:tc:SAML:2.0:assertion''),
               (''ID'', ''_'' @ arId),
               (''Version'', ''2.0''),
               (''IssueInstant'', now),
               (''Destination'', destination),
               (''InResponseTo'', requestId)]
              [text_element ''saml:Issuer'' host,
               populate (NewElement ''samlp:Status'') []
                 [populate (NewElement ''samlp:StatusCode'')
                    [(''Value'', ''urn:oasis:names:tc:SAML:2.0:status:Success'')] []],
               assertion]
      in (samlResponse, w5))"

subsection \<open>X509Key.GetKeyPair (lines 114--123)\<close>

text \<open>The error of the base64 decoding is dropped; the error returned is the key parser's.\<close>

definition GetKeyPair :: "env \<Rightarrow> X509Key \<Rightarrow> rsa_PrivateKey option \<times> bytes \<times> string option" where
  "GetKeyPair E x =
     (let cert = fst (base64_DecodeString E (X509Key.X509Certificate x))
      in case ParseRSAPrivateKeyFromPEM E (X509Key.PrivateKey x) of
           Inl err \<Rightarrow> (None, cert, Some err)
         | Inr privateKey \<Rightarrow> (Some privateKey, cert, None))"

subsection \<open>GetSamlMeta (lines 125--231)\<close>

text \<open>The metadata structs, with the fields the function sets (\<open>XMLName\<close> is the local name;
  apart from the root's it is left to the struct tags).\<close>

record X509Certificate =
  Cert :: string

record X509Data =
  X509Certificate :: X509Certificate

record KeyInfo =
  X509Data :: X509Data

record KeyDescriptor =
  Use :: string
  KeyInfo :: KeyInfo

record NameIDFormat =
  Value :: string

record SingleSignOnService =
  Binding :: string
  Location :: string

record Attribute =
  Name :: string
  NameFormat :: string
  FriendlyName :: string
  Xmlns :: string

record IdpSSODescriptor =
  ProtocolSupportEnumeration :: string
  SigningKeyDescriptor :: KeyDescriptor
  NameIDFormats :: "NameIDFormat list"
  SingleSignOnService :: SingleSignOnService
  Attribute :: "Attribute list"

record IdpEntityDescriptor =
  XMLName :: string
  DS :: string
  XMLNS :: string
  MD :: string
  EntityId :: string
  IdpSSODescriptor :: IdpSSODescriptor

text \<open>
  \<^verbatim>\<open>cert.Certificate\<close> panics on a nil certificate and \<^verbatim>\<open>block.Bytes\<close> on a nil block. The
  error the Go function returns beside the descriptor is always nil.
\<close>

definition nil_dereference :: string where
  "nil_dereference = ''runtime error: invalid memory address or nil pointer dereference''"

definition GetSamlMeta :: "env \<Rightarrow> Application \<Rightarrow> string \<Rightarrow> IdpEntityDescriptor outcome" where
  "GetSamlMeta E application host =
     (case getCertByApplication E application of
        None \<Rightarrow> Panicked nil_dereference
      | Some cert \<Rightarrow>
         (case pem_Decode E (Certificate cert) of
            None \<Rightarrow> Panicked nil_dereference
          | Some block_Bytes \<Rightarrow>
             (let certificate = base64_EncodeToString E block_Bytes;
                  (originFrontend, originBackend) = getOriginFromHost E host
              in Returned
                   \<lparr>XMLName = ''md:EntityDescriptor'',
                    DS = ''http://www.w3.org/2000/09/xmldsig#'',
                    XMLNS = ''urn:oasis:names:tc:SAML:2.0:metadata'',
                    MD = ''urn:oasis:names:tc:SAML:2.0:metadata'',
                    EntityId = originBackend,
                    IdpSSODescriptor =
                      \<lparr>ProtocolSupportEnumeration = ''urn:oasis:names:tc:SAML:2.0:protocol'',
                       SigningKeyDescriptor =
                         \<lparr>Use = ''signing'',
                          KeyInfo = \<lparr>X509Data = \<lparr>X509Data.X509Certificate = \<lparr>Cert = certificate\<rparr>\<rparr>\<rparr>\<rparr>,
                       NameIDFormats =
                         [\<lparr>Value = ''urn:oasis:names:tc:SAML:1.1:nameid-format:emailAddress''\<rparr>,
                          \<lparr>Value = ''urn:oasis:names:tc:SAML:2.0:nameid-format:persistent''\<rparr>,
                          \<lparr>Value = ''urn:oasis:names:tc:SAML:2.0:nameid-format:transient''\<rparr>],
                       SingleSignOnService =
                         \<lparr>Binding = ''urn:oasis:names:tc:SAML:2.0:bindings:HTTP-Redirect'',
                          Location =
                            originFrontend @ ''/login/saml/authorize/'' @ Owner application
                              @ ''/'' @ Application.Name application\<rparr>,
                       Attribute =
                         [\<lparr>Attribute.Name = ''Email'',
                           NameFormat = ''urn:oasis:names:tc:SAML:2.0:attrname-format:basic'',
                           FriendlyName = ''E-Mail'',
                           Xmlns = ''urn:oasis:names:tc:SAML:2.0:assertion''\<rparr>,
                          \<lparr>Attribute.Name = ''DisplayName'',
                           NameFormat = ''urn:oasis:names:tc:SAML:2.0:attrname-format:basic'',
                           FriendlyName = ''displayName'',
                           Xmlns = ''urn:oasis:names:tc:SAML:2.0:assertion''\<rparr>,
                          \<lparr>Attribute.Name = ''Name'',
                           NameFormat = ''urn:oasis:names:tc:SAML:2.0:attrname-format:basic'',
                           FriendlyName = ''Name'',
                           Xmlns = ''urn:oasis:names:tc:SAML:2.0:assertion''\<rparr>]\<rparr>\<rparr>)))"

subsection \<open>GetSamlResponse (lines 233--319)\<close>

text \<open>
  Modelled from the spec: \<^verbatim>\<open>Application.IsRedirectUriValid\<close> is a method of this package that
  is declared in another file. The spec states its policy: the issuer URL must exactly
  match at least one entry of the application's redirect URIs.
\<close>

definition IsRedirectUriValid :: "Application \<Rightarrow> string \<Rightarrow> bool" where
  "IsRedirectUriValid application redirectUri = (redirectUri \<in> set (RedirectUris application))"

text \<open>
  Lines 239--256: base64 decoding, decompression and parsing of the request. \<open>Inl\<close> is
  an early \<^verbatim>\<open>return\<close> of the four values, \<open>Inr\<close> the parsed request.
\<close>

definition GetSamlResponse_decode :: "env \<Rightarrow> string \<Rightarrow> string \<Rightarrow> ret + AuthnRequest" where
  "GetSamlResponse_decode E samlRequest method =
     (case base64_DecodeString E samlRequest of
        (defated, Some err) \<Rightarrow> Inl ('''', '''', method, Some (DecodeError_base64 err))
      | (defated, None) \<Rightarrow>
         (case flate_Inflate E defated of
            Inl err \<Rightarrow> Inl ('''', '''', '''', Some (DecodeError_inflate err))
          | Inr buffer \<Rightarrow>
             (case xml_Unmarshal E buffer of
                Inl err \<Rightarrow> Inl ('''', '''', method, Some (MalformedRequestError err))
              | Inr authnRequest \<Rightarrow> Inr authnRequest)))"

text \<open>
  Lines 268--274, "redirect Url (Assertion Consumer Url)": the local variables \<^verbatim>\<open>method\<close>
  and \<^verbatim>\<open>authnRequest\<close> after the block, or the early \<^verbatim>\<open>return\<close>.
\<close>

definition GetSamlResponse_redirectUrl ::
  "Application \<Rightarrow> string \<Rightarrow> AuthnRequest \<Rightarrow> ret + string \<times> AuthnRequest" where
  "GetSamlResponse_redirectUrl application method authnRequest =
     (if SamlReplyUrl application \<noteq> ''''
      then Inr (''POST'', authnRequest\<lparr>AssertionConsumerServiceURL := SamlReplyUrl application\<rparr>)
      else if AssertionConsumerServiceURL authnRequest = ''''
      then Inl ('''', '''', '''', Some MissingDestinationError)
      else Inr (method, authnRequest))"

text \<open>
  Lines 276--290, "build signedResponse": the response is built and the signature is
  inserted as its second child. The error of \<^verbatim>\<open>ConstructSignature\<close> is assigned to \<^verbatim>\<open>err\<close>
  and not looked at; on an error the signature is nil and \<^verbatim>\<open>InsertChildAt\<close> calls a
  method that reads a field of it.
\<close>

definition ConstructSignature :: "env \<Rightarrow> X509Key \<Rightarrow> element \<Rightarrow> bool \<Rightarrow> string + element" where
  "ConstructSignature E keyStore el enveloped =
     dsig_ConstructSignature E (GetKeyPair E keyStore) el enveloped"

definition GetSamlResponse_sign ::
  "env \<Rightarrow> Application \<Rightarrow> User \<Rightarrow> AuthnRequest \<Rightarrow> string \<Rightarrow> Cert \<Rightarrow> string \<Rightarrow> world
     \<Rightarrow> element outcome \<times> world" where
  "GetSamlResponse_sign E application user authnRequest host cert certificate w =
     (let (originFrontend, originBackend) = getOriginFromHost E host;
          (samlResponse, w') =
            NewSamlResponse E user originBackend certificate
              (AssertionConsumerServiceURL authnRequest) (Url (Issuer authnRequest))
              (ID authnRequest) (RedirectUris application) w;
          randomKeyStore =
            \<lparr>X509Key.X509Certificate = certificate, X509Key.PrivateKey = Cert.PrivateKey cert\<rparr>
      in case ConstructSignature E randomKeyStore samlResponse True of
           Inl err \<Rightarrow> (Panicked nil_dereference, w')
         | Inr sig \<Rightarrow> (Returned (InsertChildAt 1 (ChildElement sig) samlResponse), w'))"

text \<open>
  Lines 292--318: serialization, optional compression, base64 encoding and the final
  \<^verbatim>\<open>return\<close>. The \<^verbatim>\<open>err\<close> returned at the end is the one of \<^verbatim>\<open>WriteToBytes\<close>, which is nil
  there (the compressor's errors live in a variable of the inner block).
\<close>

definition GetSamlResponse_encode ::
  "env \<Rightarrow> Application \<Rightarrow> string \<Rightarrow> AuthnRequest \<Rightarrow> element \<Rightarrow> ret" where
  "GetSamlResponse_encode E application method authnRequest samlResponse =
     (case WriteToBytes E samlResponse of
        Inl err \<Rightarrow> ('''', '''', method, Some (SerializationError err))
      | Inr xmlBytes \<Rightarrow>
         (if EnableSamlCompress application
          then (case flate_NewWriter E of
                  Some err \<Rightarrow> ('''', '''', method, Some (CompressionError_NewWriter err))
                | None \<Rightarrow>
                   (case flate_Write E xmlBytes of
                      Some err \<Rightarrow> ('''', '''', '''', Some (CompressionError_Write err))
                    | None \<Rightarrow>
                       (case flate_Close E xmlBytes of
                          Inl err \<Rightarrow> ('''', '''', '''', Some (CompressionError_Close err))
                        | Inr flated \<Rightarrow>
                           (base64_EncodeToString E flated,
                            AssertionConsumerServiceURL authnRequest, method, None))))
          else (base64_EncodeToString E xmlBytes,
                AssertionConsumerServiceURL authnRequest, method, None)))"

text \<open>Lines 263--318: everything after the issuer check.\<close>

definition GetSamlResponse_validated ::
  "env \<Rightarrow> Application \<Rightarrow> User \<Rightarrow> AuthnRequest \<Rightarrow> string \<Rightarrow> string \<Rightarrow> world
     \<Rightarrow> ret outcome \<times> world" where
  "GetSamlResponse_validated E application user authnRequest host method w =
     (case getCertByApplication E application of
        None \<Rightarrow> (Panicked nil_dereference, w)
      | Some cert \<Rightarrow>
         (case pem_Decode E (Certificate cert) of
            None \<Rightarrow> (Panicked nil_dereference, w)
          | Some block_Bytes \<Rightarrow>
             (let certificate = base64_EncodeToString E block_Bytes
              in case GetSamlResponse_redirectUrl application method authnRequest of
                   Inl r \<Rightarrow> (Returned r, w)
                 | Inr (method', authnRequest') \<Rightarrow>
                    (case GetSamlResponse_sign E application user authnRequest' host cert
                            certificate w of
                       (Panicked p, w') \<Rightarrow> (Panicked p, w')
                     | (Returned samlResponse, w') \<Rightarrow>
                        (Returned
                           (GetSamlResponse_encode E application method' authnRequest'
                              samlResponse), w')))))"

definition GetSamlResponse ::
  "env \<Rightarrow> Application \<Rightarrow> User \<Rightarrow> string \<Rightarrow> string \<Rightarrow> world \<Rightarrow> ret outcome \<times> world" where
  "GetSamlResponse E application user samlRequest host w =
     (let method = ''GET''
      in case GetSamlResponse_decode E samlRequest method of
           Inl r \<Rightarrow> (Returned r, w)
         | Inr authnRequest \<Rightarrow>
            (if \<not> IsRedirectUriValid application (Url (Issuer authnRequest))
             then (Returned ('''', '''', method,
                     Some (UnauthorizedIssuerError (Url (Issuer authnRequest)))), w)
             else GetSamlResponse_validated E application user authnRequest host method w))"

subsection \<open>NewSamlResponse11 (lines 321--397)\<close>

text \<open>
  \<^verbatim>\<open>json.Unmarshal(data, &tmp)\<close> with \<^verbatim>\<open>tmp\<close> a \<^verbatim>\<open>map[string]string\<close>, on the data that
  \<^verbatim>\<open>json.Marshal(user)\<close> wrote: empty data is an error; a string member is stored, a
  \<^verbatim>\<open>null\<close> member is stored as the empty string, and any other member is a type error, which
  the call reports once it has read the whole object (the error names the kind of the first
  offending value and its key). The map is the list of its entries.
\<close>

fun json_kind :: "jvalue \<Rightarrow> string" where
  "json_kind (JString s) = ''string''"
| "json_kind JNull = ''null''"
| "json_kind (JNumber n) = ''number''"
| "json_kind (JBool b) = ''bool''"
| "json_kind JArray = ''array''"
| "json_kind JObject = ''object''"

fun json_string_member :: "jvalue \<Rightarrow> bool" where
  "json_string_member (JString s) = True"
| "json_string_member JNull = True"
| "json_string_member v = False"

fun json_string_value :: "jvalue \<Rightarrow> string" where
  "json_string_value (JString s) = s"
| "json_string_value v = ''''"

fun map_store :: "string \<Rightarrow> string \<Rightarrow> (string \<times> string) list \<Rightarrow> (string \<times> string) list" where
  "map_store k v [] = [(k, v)]"
| "map_store k v ((k', x) # m) = (if k' = k then (k', v) # m else (k', x) # map_store k v m)"

definition json_Unmarshal ::
  "(string \<times> jvalue) list option \<Rightarrow> string + (string \<times> string) list" where
  "json_Unmarshal data =
     (case data of
        None \<Rightarrow> Inl ''unexpected end of JSON input''
      | Some members \<Rightarrow>
         (case find (\<lambda>(k, v). \<not> json_string_member v) members of
            Some (k, v) \<Rightarrow>
              Inl (''json: cannot unmarshal '' @ json_kind v @ '' into Go struct field .'' @ k
                   @ '' of type string'')
          | None \<Rightarrow> Inr (foldl (\<lambda>m (k, v). map_store k (json_string_value v) m) [] members)))"

text \<open>One attribute of the legacy attribute statement (the body of the loop, lines 389--392).\<close>

definition saml_Attribute11 :: "string \<Rightarrow> string \<Rightarrow> element" where
  "saml_Attribute11 k v =
     populate (NewElement ''saml:Attribute'')
       [(''saml:AttributeName'', k),
        (''saml:AttributeNamespace'', ''http://www.ja-sig.org/products/cas/'')]
       [text_element ''saml:AttributeValue'' v]"

text \<open>
  The error of \<^verbatim>\<open>json.Marshal\<close> is dropped; an error of \<^verbatim>\<open>json.Unmarshal\<close> is passed to
  \<^verbatim>\<open>panic\<close>. The loop visits the entries of the map in the order \<open>map_range\<close> gives.
\<close>

definition NewSamlResponse11 ::
  "env \<Rightarrow> User \<Rightarrow> string \<Rightarrow> string \<Rightarrow> world \<Rightarrow> element outcome \<times> world" where
  "NewSamlResponse11 E user requestID host w =
     (let (responseID, w1) = uuid_NewV4 E w;
          (t_now, w2) = time_Now E w1;
          now = Format_RFC3339 E t_now;
          (t_exp, w3) = time_Now E w2;
          expireTime = Format_RFC3339 E (Add t_exp (Hour * 24));
          (assertionID, w4) = uuid_NewV4 E w3;
          condition =
            populate (NewElement ''saml:Conditions'')
              [(''NotBefore'', now), (''NotOnOrAfter'', expireTime)] [];
          authenticationStatement =
            populate (NewElement ''saml:AuthenticationStatement'')
              [(''AuthenticationMethod'', ''urn:oasis:names:tc:SAML:1.0:am:password''),
               (''AuthenticationInstant'', now)] [];
          subject =
            populate (NewElement ''saml:Subject'') []
              [text_element ''saml:NameIdentifier'' (User.Name user),
               populate (NewElement ''saml:SubjectConfirmation'') []
                 [text_element ''saml:ConfirmationMethod''
                    ''urn:oasis:names:tc:SAML:1.0:cm:artifact'']];
          subjectInAttribute =
            populate (NewElement ''saml:Subject'') []
              [text_element ''saml:NameIdentifier'' (User.Name user),
               populate (NewElement ''saml:SubjectConfirmation'') []
                 [text_element ''saml:ConfirmationMethod''
                    ''urn:oasis:names:tc:SAML:1.0:cm:artifact'']];
          data = json_Marshal E user
      in case json_Unmarshal data of
           Inl err \<Rightarrow> (Panicked err, w4)
         | Inr tmp \<Rightarrow>
            (let attributeStatement =
                   populate (NewElement ''saml:AttributeStatement'') []
                     (subjectInAttribute
                      # map (\<lambda>(k, v). saml_Attribute11 k v)
                          (filter (\<lambda>(k, v). v \<noteq> '''') (map_range E tmp)));
                 assertion =
                   populate (NewElement ''saml:Assertion'')
                     [(''xmlns:saml'', ''urn:oasis:names:tc:SAML:1.0:assertion''),
                      (''MajorVersion'', ''1''),
                      (''MinorVersion'', ''1''),
                      (''AssertionID'', assertionID),
                      (''Issuer'', host),
                      (''IssueInstant'', now)]
                     [condition, authenticationStatement, subject, attributeStatement];
                 samlResponse =
                   populate (Element ''samlp'' ''Response'' [] [])
                     [(''xmlns:samlp'', ''urn:oasis:names:tc:SAML:1.0:protocol''),
                      (''MajorVersion'', ''1''),
                      (''MinorVersion'', ''1''),
                      (''ResponseID'', ''_'' @ responseID),
                      (''InResponseTo'', requestID),
                      (''IssueInstant'', now)]
                     [populate (NewElement ''samlp:Status'') []
                        [populate (NewElement ''samlp:StatusCode'')
                           [(''Value'', ''samlp:Success'')] []],
                      assertion]
             in (Returned samlResponse, w4)))"

subsection \<open>Example inputs\<close>

text \<open>
  The example of the spec: a request \<open>req-1\<close> of the service provider
  \<open>https://sp.example\<close>, an application that allows this issuer, and the user alice.
  \<open>env_example\<close> is a simple choice of collaborators: the encodings are the identity, the
  clock stands at the epoch, every certificate is found and decodes, signing succeeds
  whenever the key store yields a key, the user is serialized with string members only, and
  a map is ranged over in the order of its entries.
\<close>

definition req_example :: AuthnRequest where
  "req_example =
     \<lparr>ID = ''req-1'', Issuer = \<lparr>Url = ''https://sp.example''\<rparr>,
      AssertionConsumerServiceURL = ''https://sp.example/acs''\<rparr>"

text \<open>The same request without a consumer-service URL.\<close>

definition req_noacs :: AuthnRequest where
  "req_noacs = req_example\<lparr>AssertionConsumerServiceURL := ''''\<rparr>"

definition app_example :: Application where
  "app_example =
     \<lparr>Owner = ''admin'', Application.Name = ''app'',
      RedirectUris = [''https://sp.example''], SamlReplyUrl = '''',
      EnableSamlCompress = False\<rparr>"

definition user_example :: User where
  "user_example =
     \<lparr>User.Name = ''alice'', Email = ''alice@example.com'', DisplayName = ''Alice''\<rparr>"

definition cert_example :: Cert where
  "cert_example = \<lparr>Certificate = ''CERTIFICATE'', Cert.PrivateKey = ''RSA PRIVATE KEY''\<rparr>"

definition world_example :: world where
  "world_example = \<lparr>now_calls = 0, uuid_calls = 0\<rparr>"

definition env_example :: env where
  "env_example =
     \<lparr>base64_DecodeString = (\<lambda>s. (s, None)),
      base64_EncodeToString = (\<lambda>b. b),
      flate_Inflate = (\<lambda>b. Inr b),
      xml_Unmarshal =
        (\<lambda>b. if b = ''<AuthnRequest/>'' then Inr req_example
             else if b = ''<AuthnRequest noacs/>'' then Inr req_noacs else Inl ''EOF''),
      getCertByApplication = (\<lambda>a. Some cert_example),
      pem_Decode = (\<lambda>b. Some b),
      getOriginFromHost = (\<lambda>h. (''https://'' @ h, ''https://'' @ h)),
      clock = (\<lambda>k. 0),
      Format_RFC3339 =
        (\<lambda>t. if t = 0 then ''1970-01-01T00:00:00Z''
             else if t = 86400000000000 then ''1970-01-02T00:00:00Z'' else ''later''),
      uuids = (\<lambda>k. replicate (Suc k) CHR ''u''),
      getRolesString = (\<lambda>u. ''''),
      ParseRSAPrivateKeyFromPEM =
        (\<lambda>b. if b = ''RSA PRIVATE KEY'' then Inr b else Inl ''invalid key''),
      dsig_ConstructSignature =
        (\<lambda>(key, cert, err) el enveloped.
           case err of Some e \<Rightarrow> Inl e | None \<Rightarrow> Inr (NewElement ''ds:Signature'')),
      WriteToBytes = (\<lambda>e. Inr ''<samlp:Response/>''),
      flate_NewWriter = None,
      flate_Write = (\<lambda>b. None),
      flate_Close = (\<lambda>b. Inr b),
      json_Marshal =
        (\<lambda>u. Some [(''name'', JString (User.Name u)), (''email'', JString (Email u)),
                   (''displayName'', JString (DisplayName u))]),
      map_range = (\<lambda>m. m)\<rparr>"

text \<open>Variations: an application with a configured reply URL, an application that does not
  allow the issuer of the example, a certificate whose private key does not parse, and a
  user whose serialized form has a numeric member.\<close>

definition app_reply :: Application where
  "app_reply = app_example\<lparr>SamlReplyUrl := ''https://sp.example/reply''\<rparr>"

definition app_other :: Application where
  "app_other = app_example\<lparr>RedirectUris := [''https://other.example'']\<rparr>"

definition env_badkey :: env where
  "env_badkey =
     env_example\<lparr>getCertByApplication :=
       (\<lambda>a. Some \<lparr>Certificate = ''CERTIFICATE'', Cert.PrivateKey = ''not a key''\<rparr>)\<rparr>"

definition env_score :: env where
  "env_score =
     env_example\<lparr>json_Marshal :=
       (\<lambda>u. Some [(''name'', JString (User.Name u)), (''score'', JNumber 0)])\<rparr>"

section \<open>Properties\<close>

subsection \<open>Element trees\<close>

lemma Attr_CreateAttr_fold:
  "Attr (foldl (\<lambda>p (k, v). CreateAttr k v p) e attrs) =
   foldl (\<lambda>as (k, v). createAttr (spaceDecompose k) v as) (Attr e) attrs"
  by (induction attrs arbitrary: e) (auto simp: CreateAttr_def)

lemma Child_CreateAttr_fold: "Child (foldl (\<lambda>p (k, v). CreateAttr k v p) e attrs) = Child e"
  by (induction attrs arbitrary: e) (auto simp: CreateAttr_def)

lemma Space_CreateAttr_fold: "Space (foldl (\<lambda>p (k, v). CreateAttr k v p) e attrs) = Space e"
  by (induction attrs arbitrary: e) (auto simp: CreateAttr_def)

lemma Tag_CreateAttr_fold: "Tag (foldl (\<lambda>p (k, v). CreateAttr k v p) e attrs) = Tag e"
  by (induction attrs arbitrary: e) (auto simp: CreateAttr_def)

lemma Attr_AddChild_fold: "Attr (foldl (\<lambda>p c. AddChild (ChildElement c) p) e cs) = Attr e"
  by (induction cs arbitrary: e) (auto simp: AddChild_def)

lemma Child_AddChild_fold:
  "Child (foldl (\<lambda>p c. AddChild (ChildElement c) p) e cs) = Child e @ map ChildElement cs"
  by (induction cs arbitrary: e) (auto simp: AddChild_def)

lemma Space_AddChild_fold: "Space (foldl (\<lambda>p c. AddChild (ChildElement c) p) e cs) = Space e"
  by (induction cs arbitrary: e) (auto simp: AddChild_def)

lemma Tag_AddChild_fold: "Tag (foldl (\<lambda>p c. AddChild (ChildElement c) p) e cs) = Tag e"
  by (induction cs arbitrary: e) (auto simp: AddChild_def)

text \<open>What \<open>populate\<close> leaves in each field of the element.\<close>

lemma Attr_populate:
  "Attr (populate e attrs cs) =
   foldl (\<lambda>as (k, v). createAttr (spaceDecompose k) v as) (Attr e) attrs"
  by (simp add: populate_def Attr_AddChild_fold Attr_CreateAttr_fold)

lemma Child_populate: "Child (populate e attrs cs) = Child e @ map ChildElement cs"
  by (simp add: populate_def Child_AddChild_fold Child_CreateAttr_fold)

lemma Space_populate: "Space (populate e attrs cs) = Space e"
  by (simp add: populate_def Space_AddChild_fold Space_CreateAttr_fold)

lemma Tag_populate: "Tag (populate e attrs cs) = Tag e"
  by (simp add: populate_def Tag_AddChild_fold Tag_CreateAttr_fold)

lemma ChildElements_of_append:
  "ChildElements_of (ts @ us) = ChildElements_of ts @ ChildElements_of us"
  by (induction ts rule: ChildElements_of.induct) auto

lemma ChildElements_of_map: "ChildElements_of (map ChildElement cs) = cs"
  by (induction cs) auto

lemma ChildElements_populate:
  "ChildElements (populate e attrs cs) = ChildElements e @ cs"
  by (simp add: ChildElements_def Child_populate ChildElements_of_append ChildElements_of_map)

lemma ChildElements_NewElement: "ChildElements (NewElement tag) = []"
  by (simp add: ChildElements_def NewElement_def split: prod.splits)

lemma ChildElements_Element: "ChildElements (Element space tag attrs []) = []"
  by (simp add: ChildElements_def)

lemma Text_text_element: "Text (text_element tag text) = text"
  by (simp add: Text_def text_element_def SetText_def NewElement_def split: prod.splits)

lemma Space_text_element: "Space (text_element tag text) = fst (spaceDecompose tag)"
  by (simp add: text_element_def SetText_def NewElement_def split: prod.splits)

lemma Tag_text_element: "Tag (text_element tag text) = snd (spaceDecompose tag)"
  by (simp add: text_element_def SetText_def NewElement_def split: prod.splits)

lemma Space_NewElement: "Space (NewElement tag) = fst (spaceDecompose tag)"
  by (simp add: NewElement_def split: prod.splits)

lemma Tag_NewElement: "Tag (NewElement tag) = snd (spaceDecompose tag)"
  by (simp add: NewElement_def split: prod.splits)

lemma Attr_NewElement: "Attr (NewElement tag) = []"
  by (simp add: NewElement_def split: prod.splits)

lemma Attr_InsertChildAt: "Attr (InsertChildAt i t e) = Attr e"
  by (simp add: InsertChildAt_def)

lemma SelectAttr_InsertChildAt: "SelectAttr (InsertChildAt i t e) key = SelectAttr e key"
  by (simp add: SelectAttr_def Attr_InsertChildAt)

lemmas tree_simps =
  Attr_populate Child_populate Space_populate Tag_populate ChildElements_populate
  ChildElements_NewElement ChildElements_Element Text_text_element Space_text_element Tag_text_element
  Space_NewElement Tag_NewElement Attr_NewElement SelectElement_def SelectAttr_def
  spaceDecompose_def spaceMatch_def

subsection \<open>Ambient effects of the builders\<close>

lemma snd_NewSamlResponse:
  "snd (NewSamlResponse E user host certificate destination iss requestId redirectUri w) =
   w\<lparr>now_calls := now_calls w + 2, uuid_calls := uuid_calls w + 3\<rparr>"
  by (simp add: NewSamlResponse_def time_Now_def uuid_NewV4_def Let_def)

lemma NewSamlResponse_changes_world:
  "snd (NewSamlResponse E user host certificate destination iss requestId redirectUri w) \<noteq> w"
proof
  assume "snd (NewSamlResponse E user host certificate destination iss requestId redirectUri w) = w"
  then have "now_calls (w\<lparr>now_calls := now_calls w + 2, uuid_calls := uuid_calls w + 3\<rparr>) = now_calls w"
    by (simp add: snd_NewSamlResponse)
  then show False by simp
qed

subsection \<open>The pipeline\<close>

text \<open>The stages after the issuer check return no \<open>UnauthorizedIssuerError\<close> and no
  \<open>SignatureError\<close>.\<close>

lemma GetSamlResponse_encode_cases:
  "GetSamlResponse_encode E application method authnRequest samlResponse = (res, dest, m, err) \<Longrightarrow>
     (err = None \<and> dest = AssertionConsumerServiceURL authnRequest \<and> m = method)
   \<or> (res = '''' \<and> dest = '''' \<and>
       ((\<exists>e. err = Some (SerializationError e) \<and> m = method)
      \<or> (\<exists>e. err = Some (CompressionError_NewWriter e) \<and> m = method)
      \<or> (\<exists>e. err = Some (CompressionError_Write e) \<and> m = '''')
      \<or> (\<exists>e. err = Some (CompressionError_Close e) \<and> m = '''')))"
  by (auto simp: GetSamlResponse_encode_def split: sum.splits option.splits if_splits)

lemma GetSamlResponse_redirectUrl_cases:
  "GetSamlResponse_redirectUrl application method authnRequest = Inr (method', authnRequest') \<Longrightarrow>
     (SamlReplyUrl application \<noteq> '''' \<and> method' = ''POST'' \<and>
        authnRequest' = authnRequest\<lparr>AssertionConsumerServiceURL := SamlReplyUrl application\<rparr>)
   \<or> (SamlReplyUrl application = '''' \<and> AssertionConsumerServiceURL authnRequest \<noteq> '''' \<and>
        method' = method \<and> authnRequest' = authnRequest)"
  by (auto simp: GetSamlResponse_redirectUrl_def split: if_splits)

lemma GetSamlResponse_redirectUrl_Inl:
  "GetSamlResponse_redirectUrl application method authnRequest = Inl r \<Longrightarrow>
     r = ('''', '''', '''', Some MissingDestinationError) \<and> SamlReplyUrl application = '''' \<and>
     AssertionConsumerServiceURL authnRequest = ''''"
  by (auto simp: GetSamlResponse_redirectUrl_def split: if_splits)

lemma GetSamlResponse_validated_cases:
  assumes "GetSamlResponse_validated E application user authnRequest host method w =
             (Returned (res, dest, m, err), w')"
  shows "((res, dest, m, err) = ('''', '''', '''', Some MissingDestinationError) \<and> w' = w \<and>
            SamlReplyUrl application = '''' \<and> AssertionConsumerServiceURL authnRequest = '''')
       \<or> (\<exists>method' authnRequest' cert certificate samlResponse.
             GetSamlResponse_redirectUrl application method authnRequest = Inr (method', authnRequest') \<and>
             GetSamlResponse_sign E application user authnRequest' host cert certificate w =
               (Returned samlResponse, w') \<and>
             GetSamlResponse_encode E application method' authnRequest' samlResponse =
               (res, dest, m, err))"
  using assms
  by (auto simp: GetSamlResponse_validated_def Let_def
      split: option.splits sum.splits prod.splits outcome.splits
      dest!: GetSamlResponse_redirectUrl_Inl)

lemma GetSamlResponse_decode_Inl:
  "GetSamlResponse_decode E samlRequest method = Inl (res, dest, m, err) \<Longrightarrow>
     res = '''' \<and> dest = '''' \<and>
     ((\<exists>e. err = Some (DecodeError_base64 e) \<and> m = method)
    \<or> (\<exists>e. err = Some (DecodeError_inflate e) \<and> m = '''')
    \<or> (\<exists>e. err = Some (MalformedRequestError e) \<and> m = method))"
  by (auto simp: GetSamlResponse_decode_def split: prod.splits option.splits sum.splits)

subsection \<open>The example run\<close>

lemma decode_example:
  "GetSamlResponse_decode env_example ''<AuthnRequest/>'' ''GET'' = Inr req_example"
  by (simp add: GetSamlResponse_decode_def env_example_def)

lemma decode_noacs:
  "GetSamlResponse_decode env_example ''<AuthnRequest noacs/>'' ''GET'' = Inr req_noacs"
  by (simp add: GetSamlResponse_decode_def env_example_def)

lemma validated_example:
  "GetSamlResponse_validated env_example app_example user_example req_example
     ''idp.example'' ''GET'' world_example =
   (Returned (''<samlp:Response/>'', ''https://sp.example/acs'', ''GET'', None),
    \<lparr>now_calls = 2, uuid_calls = 3\<rparr>)"
  by (simp add: GetSamlResponse_validated_def GetSamlResponse_redirectUrl_def
      GetSamlResponse_sign_def GetSamlResponse_encode_def ConstructSignature_def GetKeyPair_def
      env_example_def app_example_def req_example_def cert_example_def world_example_def
      split_def Let_def snd_NewSamlResponse)

lemma validated_reply:
  "GetSamlResponse_validated env_example app_reply user_example req_example
     ''idp.example'' ''GET'' world_example =
   (Returned (''<samlp:Response/>'', ''https://sp.example/reply'', ''POST'', None),
    \<lparr>now_calls = 2, uuid_calls = 3\<rparr>)"
  by (simp add: GetSamlResponse_validated_def GetSamlResponse_redirectUrl_def
      GetSamlResponse_sign_def GetSamlResponse_encode_def ConstructSignature_def GetKeyPair_def
      env_example_def app_reply_def app_example_def req_example_def cert_example_def
      world_example_def split_def Let_def snd_NewSamlResponse)

lemma run_example:
  "GetSamlResponse env_example app_example user_example ''<AuthnRequest/>'' ''idp.example''
     world_example =
   (Returned (''<samlp:Response/>'', ''https://sp.example/acs'', ''GET'', None),
    \<lparr>now_calls = 2, uuid_calls = 3\<rparr>)"
  using decode_example validated_example
  by (simp add: GetSamlResponse_def IsRedirectUriValid_def app_example_def req_example_def)

lemma run_reply:
  "GetSamlResponse env_example app_reply user_example ''<AuthnRequest/>'' ''idp.example''
     world_example =
   (Returned (''<samlp:Response/>'', ''https://sp.example/reply'', ''POST'', None),
    \<lparr>now_calls = 2, uuid_calls = 3\<rparr>)"
  using decode_example validated_reply
  by (simp add: GetSamlResponse_def IsRedirectUriValid_def app_reply_def app_example_def
      req_example_def)

lemma run_noacs:
  "GetSamlResponse env_example app_example user_example ''<AuthnRequest noacs/>''
     ''idp.example'' world_example =
   (Returned ('''', '''', '''', Some MissingDestinationError), world_example)"
  using decode_noacs
  by (simp add: GetSamlResponse_def IsRedirectUriValid_def GetSamlResponse_validated_def
      GetSamlResponse_redirectUrl_def app_example_def req_noacs_def req_example_def
      env_example_def)

subsection \<open>The issuer gate\<close>

text \<open>
  Claim C1. Once the request is decoded, \<^verbatim>\<open>GetSamlResponse\<close> checks the issuer first. An
  issuer URL outside the application's redirect URIs makes the call return the error
  \<open>UnauthorizedIssuerError\<close> (with empty payload and destination and the method \<open>GET\<close>) in an
  unchanged world: no clock was read and no identifier drawn, so no document was built
  (\<open>NewSamlResponse_changes_world\<close>). An issuer URL among the redirect URIs makes the call
  continue with the stages after the check, which never return this error.
\<close>

theorem issuer_gate:
  assumes "GetSamlResponse_decode E samlRequest ''GET'' = Inr authnRequest"
  shows "(Url (Issuer authnRequest) \<notin> set (RedirectUris application) \<longrightarrow>
            GetSamlResponse E application user samlRequest host w =
              (Returned ('''', '''', ''GET'',
                 Some (UnauthorizedIssuerError (Url (Issuer authnRequest)))), w))
       \<and> (Url (Issuer authnRequest) \<in> set (RedirectUris application) \<longrightarrow>
            GetSamlResponse E application user samlRequest host w =
              GetSamlResponse_validated E application user authnRequest host ''GET'' w
          \<and> (\<forall>res dest m url w'.
               GetSamlResponse E application user samlRequest host w \<noteq>
                 (Returned (res, dest, m, Some (UnauthorizedIssuerError url)), w')))"
proof (intro conjI impI allI)
  assume "Url (Issuer authnRequest) \<notin> set (RedirectUris application)"
  with assms show "GetSamlResponse E application user samlRequest host w =
      (Returned ('''', '''', ''GET'', Some (UnauthorizedIssuerError (Url (Issuer authnRequest)))), w)"
    by (simp add: GetSamlResponse_def IsRedirectUriValid_def)
next
  assume "Url (Issuer authnRequest) \<in> set (RedirectUris application)"
  with assms show "GetSamlResponse E application user samlRequest host w =
      GetSamlResponse_validated E application user authnRequest host ''GET'' w"
    by (simp add: GetSamlResponse_def IsRedirectUriValid_def)
next
  fix res dest m url w'
  assume "Url (Issuer authnRequest) \<in> set (RedirectUris application)"
  with assms have eq: "GetSamlResponse E application user samlRequest host w =
      GetSamlResponse_validated E application user authnRequest host ''GET'' w"
    by (simp add: GetSamlResponse_def IsRedirectUriValid_def)
  show "GetSamlResponse E application user samlRequest host w \<noteq>
      (Returned (res, dest, m, Some (UnauthorizedIssuerError url)), w')"
  proof
    assume "GetSamlResponse E application user samlRequest host w =
      (Returned (res, dest, m, Some (UnauthorizedIssuerError url)), w')"
    with eq have "GetSamlResponse_validated E application user authnRequest host ''GET'' w =
      (Returned (res, dest, m, Some (UnauthorizedIssuerError url)), w')" by simp
    from GetSamlResponse_validated_cases [OF this] show False
      by (auto dest!: GetSamlResponse_encode_cases)
  qed
qed

theorem issuer_gate_witness:
  "GetSamlResponse env_example app_other user_example ''<AuthnRequest/>'' ''idp.example''
     world_example =
     (Returned ('''', '''', ''GET'', Some (UnauthorizedIssuerError ''https://sp.example'')),
      world_example)
   \<and> GetSamlResponse env_example app_example user_example ''<AuthnRequest/>'' ''idp.example''
       world_example =
     (Returned (''<samlp:Response/>'', ''https://sp.example/acs'', ''GET'', None),
      \<lparr>now_calls = 2, uuid_calls = 3\<rparr>)"
proof -
  have out: "Url (Issuer req_example) \<notin> set (RedirectUris app_other)"
    by (simp add: req_example_def app_other_def app_example_def)
  have inn: "Url (Issuer req_example) \<in> set (RedirectUris app_example)"
    by (simp add: req_example_def app_example_def)
  from issuer_gate [OF decode_example, of app_other user_example "''idp.example''" world_example]
    out
  have 1: "GetSamlResponse env_example app_other user_example ''<AuthnRequest/>''
      ''idp.example'' world_example =
     (Returned ('''', '''', ''GET'', Some (UnauthorizedIssuerError ''https://sp.example'')),
      world_example)"
    by (simp add: req_example_def)
  from issuer_gate [OF decode_example, of app_example user_example "''idp.example''"
      world_example] inn validated_example
  have 2: "GetSamlResponse env_example app_example user_example ''<AuthnRequest/>''
      ''idp.example'' world_example =
     (Returned (''<samlp:Response/>'', ''https://sp.example/acs'', ''GET'', None),
      \<lparr>now_calls = 2, uuid_calls = 3\<rparr>)"
    by simp
  from 1 2 show ?thesis by simp
qed

subsection \<open>Correlation with the request\<close>

lemma GetSamlResponse_sign_Returned:
  assumes "GetSamlResponse_sign E application user authnRequest host cert certificate w =
             (Returned doc, w')"
  shows "\<exists>sig. doc =
           InsertChildAt 1 (ChildElement sig)
             (fst (NewSamlResponse E user (snd (getOriginFromHost E host)) certificate
                (AssertionConsumerServiceURL authnRequest) (Url (Issuer authnRequest))
                (ID authnRequest) (RedirectUris application) w))"
  using assms
  by (auto simp: GetSamlResponse_sign_def Let_def split_def split: sum.splits)

lemma GetSamlResponse_encode_success:
  assumes "GetSamlResponse_encode E application method authnRequest samlResponse =
             (res, dest, m, None)"
  shows "\<exists>xmlBytes. WriteToBytes E samlResponse = Inr xmlBytes \<and>
           (res = base64_EncodeToString E xmlBytes \<or>
            (\<exists>flated. flate_Close E xmlBytes = Inr flated \<and>
               res = base64_EncodeToString E flated))"
  using assms
  by (auto simp: GetSamlResponse_encode_def split: sum.splits option.splits if_splits)

lemma GetSamlResponse_success_stages:
  assumes "GetSamlResponse_decode E samlRequest ''GET'' = Inr authnRequest"
    and "GetSamlResponse E application user samlRequest host w =
           (Returned (res, dest, m, None), w')"
  shows "\<exists>method' authnRequest' cert certificate samlResponse.
           GetSamlResponse_redirectUrl application ''GET'' authnRequest =
             Inr (method', authnRequest') \<and>
           GetSamlResponse_sign E application user authnRequest' host cert certificate w =
             (Returned samlResponse, w') \<and>
           GetSamlResponse_encode E application method' authnRequest' samlResponse =
             (res, dest, m, None)"
proof -
  from assms have "GetSamlResponse_validated E application user authnRequest host ''GET'' w =
      (Returned (res, dest, m, None), w')"
    by (simp add: GetSamlResponse_def Let_def split: if_splits)
  from GetSamlResponse_validated_cases [OF this] show ?thesis by auto
qed

lemma NewSamlResponse_InResponseTo:
  "SelectAttr (fst (NewSamlResponse E user host certificate destination iss requestId
     redirectUri w)) ''InResponseTo'' = Some requestId"
  by (simp add: NewSamlResponse_def Let_def split_def tree_simps)

lemma NewSamlResponse_SubjectConfirmationData_InResponseTo:
  "attr_at (fst (NewSamlResponse E user host certificate destination iss requestId
     redirectUri w))
     [''saml:Assertion'', ''saml:Subject'', ''saml:SubjectConfirmation'',
      ''saml:SubjectConfirmationData''] ''InResponseTo'' = Some requestId"
  by (simp add: NewSamlResponse_def Let_def split_def attr_at_def tree_simps)

lemma NewSamlResponse11_InResponseTo:
  "NewSamlResponse11 E user requestID host w = (Returned doc, w') \<Longrightarrow>
     SelectAttr doc ''InResponseTo'' = Some requestID"
  by (auto simp add: NewSamlResponse11_def Let_def split_def tree_simps split: sum.splits)

text \<open>
  Claim C2. The \<^verbatim>\<open>InResponseTo\<close> attribute of the response equals the request ID the
  builder was given: on the root of the SAML 2.0 response and on its
  \<^verbatim>\<open>SubjectConfirmationData\<close>, and on the root of every SAML 1.1 response that
  \<^verbatim>\<open>NewSamlResponse11\<close> returns. In the pipeline the builder is given the ID of the decoded
  request: whenever \<^verbatim>\<open>GetSamlResponse\<close> succeeds, its payload encodes the bytes of a document
  whose \<^verbatim>\<open>InResponseTo\<close> is the ID of the request it decoded.
\<close>

theorem InResponseTo_is_request_ID:
  "SelectAttr (fst (NewSamlResponse E user host certificate destination iss requestId
      redirectUri w)) ''InResponseTo'' = Some requestId
   \<and> attr_at (fst (NewSamlResponse E user host certificate destination iss requestId
        redirectUri w))
        [''saml:Assertion'', ''saml:Subject'', ''saml:SubjectConfirmation'',
         ''saml:SubjectConfirmationData''] ''InResponseTo'' = Some requestId
   \<and> (\<forall>doc w'. NewSamlResponse11 E user requestId host w = (Returned doc, w') \<longrightarrow>
          SelectAttr doc ''InResponseTo'' = Some requestId)
   \<and> (\<forall>authnRequest res dest m w'.
          GetSamlResponse_decode E samlRequest ''GET'' = Inr authnRequest \<and>
          GetSamlResponse E application user samlRequest hostname w =
            (Returned (res, dest, m, None), w') \<longrightarrow>
          (\<exists>doc xmlBytes.
             SelectAttr doc ''InResponseTo'' = Some (ID authnRequest) \<and>
             WriteToBytes E doc = Inr xmlBytes \<and>
             (res = base64_EncodeToString E xmlBytes \<or>
              (\<exists>flated. flate_Close E xmlBytes = Inr flated \<and>
                 res = base64_EncodeToString E flated))))"
proof (intro conjI allI impI)
  fix authnRequest res dest m w'
  assume a: "GetSamlResponse_decode E samlRequest ''GET'' = Inr authnRequest \<and>
    GetSamlResponse E application user samlRequest hostname w = (Returned (res, dest, m, None), w')"
  from GetSamlResponse_success_stages [of E samlRequest authnRequest application user hostname w
      res dest m w'] a
  obtain method' authnRequest' cert certificate samlResponse where
    r: "GetSamlResponse_redirectUrl application ''GET'' authnRequest =
          Inr (method', authnRequest')"
    and s: "GetSamlResponse_sign E application user authnRequest' hostname cert certificate w =
          (Returned samlResponse, w')"
    and e: "GetSamlResponse_encode E application method' authnRequest' samlResponse =
          (res, dest, m, None)"
    by blast
  from GetSamlResponse_redirectUrl_cases [OF r] have id: "ID authnRequest' = ID authnRequest"
    by auto
  from GetSamlResponse_sign_Returned [OF s] id
  have "SelectAttr samlResponse ''InResponseTo'' = Some (ID authnRequest)"
    by (auto simp: SelectAttr_InsertChildAt NewSamlResponse_InResponseTo)
  with GetSamlResponse_encode_success [OF e]
  show "\<exists>doc xmlBytes.
     SelectAttr doc ''InResponseTo'' = Some (ID authnRequest) \<and>
     WriteToBytes E doc = Inr xmlBytes \<and>
     (res = base64_EncodeToString E xmlBytes \<or>
      (\<exists>flated. flate_Close E xmlBytes = Inr flated \<and> res = base64_EncodeToString E flated))"
    by blast
qed (simp_all add: NewSamlResponse_InResponseTo
      NewSamlResponse_SubjectConfirmationData_InResponseTo NewSamlResponse11_InResponseTo)

lemma NewSamlResponse11_example_returns:
  "\<exists>doc. NewSamlResponse11 env_example user_example requestID host world_example =
     (Returned doc, \<lparr>now_calls = 2, uuid_calls = 2\<rparr>)"
  by (simp add: NewSamlResponse11_def env_example_def user_example_def world_example_def
      json_Unmarshal_def time_Now_def uuid_NewV4_def Let_def)

theorem InResponseTo_is_request_ID_witness:
  "(\<exists>doc. NewSamlResponse11 env_example user_example ''req-1'' ''https://idp.example''
       world_example = (Returned doc, \<lparr>now_calls = 2, uuid_calls = 2\<rparr>)
     \<and> SelectAttr doc ''InResponseTo'' = Some ''req-1'')
   \<and> GetSamlResponse_decode env_example ''<AuthnRequest/>'' ''GET'' = Inr req_example
   \<and> GetSamlResponse env_example app_example user_example ''<AuthnRequest/>'' ''idp.example''
       world_example =
     (Returned (''<samlp:Response/>'', ''https://sp.example/acs'', ''GET'', None),
      \<lparr>now_calls = 2, uuid_calls = 3\<rparr>)
   \<and> (\<exists>doc. SelectAttr doc ''InResponseTo'' = Some ''req-1'' \<and>
         WriteToBytes env_example doc = Inr ''<samlp:Response/>'')"
proof -
  note inst = InResponseTo_is_request_ID [of env_example user_example "''https://idp.example''"
      "''CERTIFICATE''" "''https://sp.example/acs''" "''https://sp.example''" "''req-1''"
      "[''https://sp.example'']" world_example "''<AuthnRequest/>''" app_example
      "''idp.example''"]
  obtain doc where d: "NewSamlResponse11 env_example user_example ''req-1''
      ''https://idp.example'' world_example = (Returned doc, \<lparr>now_calls = 2, uuid_calls = 2\<rparr>)"
    using NewSamlResponse11_example_returns by blast
  with inst have 1: "SelectAttr doc ''InResponseTo'' = Some ''req-1''" by blast
  from inst decode_example run_example
  obtain doc' xmlBytes where 2: "SelectAttr doc' ''InResponseTo'' = Some (ID req_example)"
    and 3: "WriteToBytes env_example doc' = Inr xmlBytes"
    by blast
  from 3 have "WriteToBytes env_example doc' = Inr ''<samlp:Response/>''"
    by (simp add: env_example_def)
  with 2 have "\<exists>doc. SelectAttr doc ''InResponseTo'' = Some ''req-1'' \<and>
         WriteToBytes env_example doc = Inr ''<samlp:Response/>''"
    by (auto simp: req_example_def)
  with d 1 decode_example run_example show ?thesis by blast
qed

subsection \<open>Audience restriction\<close>

text \<open>
  Claim C6. In the response that \<^verbatim>\<open>NewSamlResponse\<close> builds, the element
  \<^verbatim>\<open>saml:AudienceRestriction\<close> under \<^verbatim>\<open>saml:Assertion/saml:Conditions\<close> has no attribute and
  its children are exactly one \<^verbatim>\<open>saml:Audience\<close> element for the request issuer URL followed
  by one for every redirect URI, in the order of the list; their texts are the issuer URL
  followed by the redirect URIs.
\<close>

theorem AudienceRestriction_contents:
  "\<exists>a. FindElement
          (fst (NewSamlResponse E user host certificate destination iss requestId redirectUri w))
          [''saml:Assertion'', ''saml:Conditions'', ''saml:AudienceRestriction''] = Some a
     \<and> Attr a = []
     \<and> Child a = map (\<lambda>u. ChildElement (text_element ''saml:Audience'' u)) (iss # redirectUri)
     \<and> map Text (ChildElements a) = iss # redirectUri"
  by (simp add: NewSamlResponse_def Let_def split_def tree_simps comp_def NewElement_def)

subsection \<open>Validity window\<close>

lemma NewSamlResponse_instants:
  "SelectAttr (fst (NewSamlResponse E user host certificate destination iss requestId
      redirectUri w)) ''IssueInstant'' = Some (Format_RFC3339 E (clock E (now_calls w)))
   \<and> attr_at (fst (NewSamlResponse E user host certificate destination iss requestId
        redirectUri w)) [''saml:Assertion''] ''IssueInstant'' =
       Some (Format_RFC3339 E (clock E (now_calls w)))
   \<and> attr_at (fst (NewSamlResponse E user host certificate destination iss requestId
        redirectUri w)) [''saml:Assertion'', ''saml:Conditions''] ''NotOnOrAfter'' =
       Some (Format_RFC3339 E (Add (clock E (Suc (now_calls w))) (Hour * 24)))
   \<and> attr_at (fst (NewSamlResponse E user host certificate destination iss requestId
        redirectUri w))
        [''saml:Assertion'', ''saml:Subject'', ''saml:SubjectConfirmation'',
         ''saml:SubjectConfirmationData''] ''NotOnOrAfter'' =
       Some (Format_RFC3339 E (Add (clock E (Suc (now_calls w))) (Hour * 24)))
   \<and> attr_at (fst (NewSamlResponse E user host certificate destination iss requestId
        redirectUri w)) [''saml:Assertion'', ''saml:AuthnStatement''] ''SessionNotOnOrAfter'' =
       Some (Format_RFC3339 E (Add (clock E (Suc (now_calls w))) (Hour * 24)))"
  by (simp add: NewSamlResponse_def Let_def split_def attr_at_def tree_simps time_Now_def
      uuid_NewV4_def)

lemma NewSamlResponse11_instants:
  assumes "NewSamlResponse11 E user requestID host w = (Returned doc, w')"
  shows "SelectAttr doc ''IssueInstant'' = Some (Format_RFC3339 E (clock E (now_calls w)))
   \<and> attr_at doc [''saml:Assertion''] ''IssueInstant'' =
       Some (Format_RFC3339 E (clock E (now_calls w)))
   \<and> attr_at doc [''saml:Assertion'', ''saml:Conditions''] ''NotOnOrAfter'' =
       Some (Format_RFC3339 E (Add (clock E (Suc (now_calls w))) (Hour * 24)))"
  using assms
  by (auto simp add: NewSamlResponse11_def Let_def split_def attr_at_def tree_simps time_Now_def
      uuid_NewV4_def split: sum.splits)

text \<open>
  Claim C5. Under a fixed clock (every reading is the instant \<open>t\<close>) the response carries
  the formatted instant \<open>t\<close> as \<^verbatim>\<open>IssueInstant\<close> (on the response and on the assertion) and
  the formatted instant \<open>t + 24h\<close> as every \<^verbatim>\<open>NotOnOrAfter\<close> (and \<^verbatim>\<open>SessionNotOnOrAfter\<close>): in
  the SAML 2.0 response, and in every SAML 1.1 response that is returned. The second instant
  is later than the first by exactly 24 hours (86400 seconds, in nanoseconds). The dates
  are compared as instants: how \<^verbatim>\<open>Format(time.RFC3339)\<close> writes them is left to the library.
\<close>

theorem validity_window_24_hours:
  assumes "\<forall>k. clock E k = t"
  shows "SelectAttr (fst (NewSamlResponse E user host certificate destination iss requestId
      redirectUri w)) ''IssueInstant'' = Some (Format_RFC3339 E t)
   \<and> attr_at (fst (NewSamlResponse E user host certificate destination iss requestId
        redirectUri w)) [''saml:Assertion''] ''IssueInstant'' = Some (Format_RFC3339 E t)
   \<and> attr_at (fst (NewSamlResponse E user host certificate destination iss requestId
        redirectUri w)) [''saml:Assertion'', ''saml:Conditions''] ''NotOnOrAfter'' =
       Some (Format_RFC3339 E (Add t (Hour * 24)))
   \<and> attr_at (fst (NewSamlResponse E user host certificate destination iss requestId
        redirectUri w))
        [''saml:Assertion'', ''saml:Subject'', ''saml:SubjectConfirmation'',
         ''saml:SubjectConfirmationData''] ''NotOnOrAfter'' =
       Some (Format_RFC3339 E (Add t (Hour * 24)))
   \<and> attr_at (fst (NewSamlResponse E user host certificate destination iss requestId
        redirectUri w)) [''saml:Assertion'', ''saml:AuthnStatement''] ''SessionNotOnOrAfter'' =
       Some (Format_RFC3339 E (Add t (Hour * 24)))
   \<and> (\<forall>doc w'. NewSamlResponse11 E user requestId host w = (Returned doc, w') \<longrightarrow>
         SelectAttr doc ''IssueInstant'' = Some (Format_RFC3339 E t)
       \<and> attr_at doc [''saml:Assertion''] ''IssueInstant'' = Some (Format_RFC3339 E t)
       \<and> attr_at doc [''saml:Assertion'', ''saml:Conditions''] ''NotOnOrAfter'' =
           Some (Format_RFC3339 E (Add t (Hour * 24))))
   \<and> Add t (Hour * 24) - t = 24 * 60 * 60 * 1000000000
   \<and> t < Add t (Hour * 24)"
proof -
  have "Add t (Hour * 24) - t = 24 * 60 * 60 * 1000000000" and "t < Add t (Hour * 24)"
    by (simp_all add: Add_def Hour_def)
  moreover from assms have "clock E (now_calls w) = t" and "clock E (Suc (now_calls w)) = t"
    by simp_all
  ultimately show ?thesis
    using NewSamlResponse_instants [of E user host certificate destination iss requestId
        redirectUri w]
      NewSamlResponse11_instants [of E user requestId host w]
    by auto
qed

theorem validity_window_24_hours_witness:
  "(\<forall>k. clock env_example k = 0)
   \<and> SelectAttr (fst (NewSamlResponse env_example user_example ''https://idp.example''
        ''CERTIFICATE'' ''https://sp.example/acs'' ''https://sp.example'' ''req-1''
        [''https://sp.example''] world_example)) ''IssueInstant'' = Some ''1970-01-01T00:00:00Z''
   \<and> attr_at (fst (NewSamlResponse env_example user_example ''https://idp.example''
        ''CERTIFICATE'' ''https://sp.example/acs'' ''https://sp.example'' ''req-1''
        [''https://sp.example''] world_example)) [''saml:Assertion'', ''saml:Conditions'']
        ''NotOnOrAfter'' = Some ''1970-01-02T00:00:00Z''
   \<and> (\<exists>doc. NewSamlResponse11 env_example user_example ''req-1'' ''https://idp.example''
         world_example = (Returned doc, \<lparr>now_calls = 2, uuid_calls = 2\<rparr>)
       \<and> SelectAttr doc ''IssueInstant'' = Some ''1970-01-01T00:00:00Z''
       \<and> attr_at doc [''saml:Assertion'', ''saml:Conditions''] ''NotOnOrAfter'' =
           Some ''1970-01-02T00:00:00Z'')"
proof -
  have fixed: "\<forall>k. clock env_example k = 0"
    by (simp add: env_example_def)
  have f0: "Format_RFC3339 env_example 0 = ''1970-01-01T00:00:00Z''"
    and f1: "Format_RFC3339 env_example (Add 0 (Hour * 24)) = ''1970-01-02T00:00:00Z''"
    by (simp_all add: env_example_def Add_def Hour_def)
  note inst = validity_window_24_hours [OF fixed, of user_example "''https://idp.example''"
      "''CERTIFICATE''" "''https://sp.example/acs''" "''https://sp.example''" "''req-1''"
      "[''https://sp.example'']" world_example]
  obtain doc where d: "NewSamlResponse11 env_example user_example ''req-1''
      ''https://idp.example'' world_example = (Returned doc, \<lparr>now_calls = 2, uuid_calls = 2\<rparr>)"
    using NewSamlResponse11_example_returns by blast
  with inst have "SelectAttr doc ''IssueInstant'' = Some (Format_RFC3339 env_example 0)
      \<and> attr_at doc [''saml:Assertion'', ''saml:Conditions''] ''NotOnOrAfter'' =
          Some (Format_RFC3339 env_example (Add 0 (Hour * 24)))"
    by blast
  with d f0 f1 have 2: "\<exists>doc. NewSamlResponse11 env_example user_example ''req-1''
        ''https://idp.example'' world_example = (Returned doc, \<lparr>now_calls = 2, uuid_calls = 2\<rparr>)
       \<and> SelectAttr doc ''IssueInstant'' = Some ''1970-01-01T00:00:00Z''
       \<and> attr_at doc [''saml:Assertion'', ''saml:Conditions''] ''NotOnOrAfter'' =
           Some ''1970-01-02T00:00:00Z''"
    by auto
  from inst f0 f1 have 1: "SelectAttr (fst (NewSamlResponse env_example user_example
        ''https://idp.example'' ''CERTIFICATE'' ''https://sp.example/acs'' ''https://sp.example''
        ''req-1'' [''https://sp.example''] world_example)) ''IssueInstant'' =
        Some ''1970-01-01T00:00:00Z''
      \<and> attr_at (fst (NewSamlResponse env_example user_example ''https://idp.example''
        ''CERTIFICATE'' ''https://sp.example/acs'' ''https://sp.example'' ''req-1''
        [''https://sp.example''] world_example)) [''saml:Assertion'', ''saml:Conditions'']
        ''NotOnOrAfter'' = Some ''1970-01-02T00:00:00Z''"
    by simp
  from fixed 1 2 show ?thesis by blast
qed

subsection \<open>Destination and method\<close>

lemma GetSamlResponse_missing_destination:
  assumes "GetSamlResponse_decode E samlRequest ''GET'' = Inr authnRequest"
    and "Url (Issuer authnRequest) \<in> set (RedirectUris application)"
    and "getCertByApplication E application = Some cert"
    and "pem_Decode E (Certificate cert) = Some block_Bytes"
    and "SamlReplyUrl application = ''''"
    and "AssertionConsumerServiceURL authnRequest = ''''"
  shows "GetSamlResponse E application user samlRequest host w =
           (Returned ('''', '''', '''', Some MissingDestinationError), w)"
  using assms
  by (simp add: GetSamlResponse_def IsRedirectUriValid_def GetSamlResponse_validated_def
      GetSamlResponse_redirectUrl_def)

lemma GetSamlResponse_success_destination:
  assumes "GetSamlResponse_decode E samlRequest ''GET'' = Inr authnRequest"
    and "GetSamlResponse E application user samlRequest host w =
           (Returned (res, dest, m, None), w')"
  shows "if SamlReplyUrl application \<noteq> ''''
         then m = ''POST'' \<and> dest = SamlReplyUrl application
         else AssertionConsumerServiceURL authnRequest \<noteq> '''' \<and> m = ''GET'' \<and>
              dest = AssertionConsumerServiceURL authnRequest"
proof -
  from GetSamlResponse_success_stages [OF assms]
  obtain method' authnRequest' samlResponse where
    r: "GetSamlResponse_redirectUrl application ''GET'' authnRequest =
          Inr (method', authnRequest')"
    and e: "GetSamlResponse_encode E application method' authnRequest' samlResponse =
          (res, dest, m, None)"
    by blast
  from GetSamlResponse_encode_cases [OF e]
  have "dest = AssertionConsumerServiceURL authnRequest'" and "m = method'"
    by auto
  with GetSamlResponse_redirectUrl_cases [OF r] show ?thesis
    by auto
qed

text \<open>
  Claim C4. For a decoded request, a successful call returns the method \<open>POST\<close> and the
  application's reply URL as destination when that URL is set, whatever consumer-service
  URL the request carries; when the reply URL is unset, the request carries a
  consumer-service URL, and the call returns the method \<open>GET\<close> and that URL. When both are
  empty (and the issuer is allowed and the certificate is found and decodes, so that the
  call reaches this point), the call returns \<open>MissingDestinationError\<close> in an unchanged world:
  no clock was read and no identifier drawn, so no document was built.
\<close>

theorem destination_and_method:
  assumes "GetSamlResponse_decode E samlRequest ''GET'' = Inr authnRequest"
  shows "(\<forall>res dest m w'.
            GetSamlResponse E application user samlRequest host w =
              (Returned (res, dest, m, None), w') \<longrightarrow>
            (if SamlReplyUrl application \<noteq> ''''
             then m = ''POST'' \<and> dest = SamlReplyUrl application
             else AssertionConsumerServiceURL authnRequest \<noteq> '''' \<and> m = ''GET'' \<and>
                  dest = AssertionConsumerServiceURL authnRequest))
       \<and> (\<forall>cert block_Bytes.
            Url (Issuer authnRequest) \<in> set (RedirectUris application) \<and>
            getCertByApplication E application = Some cert \<and>
            pem_Decode E (Certificate cert) = Some block_Bytes \<and>
            SamlReplyUrl application = '''' \<and>
            AssertionConsumerServiceURL authnRequest = '''' \<longrightarrow>
            GetSamlResponse E application user samlRequest host w =
              (Returned ('''', '''', '''', Some MissingDestinationError), w))"
proof (intro conjI allI impI)
  fix res dest m w'
  assume "GetSamlResponse E application user samlRequest host w =
    (Returned (res, dest, m, None), w')"
  from GetSamlResponse_success_destination [OF assms this]
  show "if SamlReplyUrl application \<noteq> []
        then m = ''POST'' \<and> dest = SamlReplyUrl application
        else AssertionConsumerServiceURL authnRequest \<noteq> [] \<and> m = ''GET'' \<and>
             dest = AssertionConsumerServiceURL authnRequest" .
next
  fix cert block_Bytes
  assume a: "Url (Issuer authnRequest) \<in> set (RedirectUris application) \<and>
    getCertByApplication E application = Some cert \<and>
    pem_Decode E (Certificate cert) = Some block_Bytes \<and>
    SamlReplyUrl application = [] \<and>
    AssertionConsumerServiceURL authnRequest = []"
  with GetSamlResponse_missing_destination [OF assms, of application cert block_Bytes user host w]
  show "GetSamlResponse E application user samlRequest host w =
    (Returned ([], [], [], Some MissingDestinationError), w)"
    by simp
qed

theorem destination_and_method_witness:
  "GetSamlResponse env_example app_reply user_example ''<AuthnRequest/>'' ''idp.example''
     world_example =
     (Returned (''<samlp:Response/>'', ''https://sp.example/reply'', ''POST'', None),
      \<lparr>now_calls = 2, uuid_calls = 3\<rparr>)
   \<and> SamlReplyUrl app_reply = ''https://sp.example/reply''
   \<and> AssertionConsumerServiceURL req_example = ''https://sp.example/acs''
   \<and> GetSamlResponse env_example app_example user_example ''<AuthnRequest/>'' ''idp.example''
       world_example =
     (Returned (''<samlp:Response/>'', ''https://sp.example/acs'', ''GET'', None),
      \<lparr>now_calls = 2, uuid_calls = 3\<rparr>)
   \<and> SamlReplyUrl app_example = ''''
   \<and> GetSamlResponse env_example app_example user_example ''<AuthnRequest noacs/>''
       ''idp.example'' world_example =
     (Returned ('''', '''', '''', Some MissingDestinationError), world_example)"
proof -
  have post: "SamlReplyUrl app_reply = ''https://sp.example/reply''"
    and get: "SamlReplyUrl app_example = ''''"
    and acs: "AssertionConsumerServiceURL req_example = ''https://sp.example/acs''"
    by (simp_all add: app_reply_def app_example_def req_example_def)
  have pre: "Url (Issuer req_noacs) \<in> set (RedirectUris app_example) \<and>
      getCertByApplication env_example app_example = Some cert_example \<and>
      pem_Decode env_example (Certificate cert_example) = Some ''CERTIFICATE'' \<and>
      SamlReplyUrl app_example = '''' \<and> AssertionConsumerServiceURL req_noacs = ''''"
    by (simp add: req_noacs_def req_example_def app_example_def env_example_def cert_example_def)
  note miss = destination_and_method [OF decode_noacs, of app_example user_example
      "''idp.example''" world_example, THEN conjunct2, rule_format, OF pre]
  note sel = destination_and_method [OF decode_example, of app_reply user_example
      "''idp.example''" world_example, THEN conjunct1, rule_format, OF run_reply]
  from sel post have forced: "SamlReplyUrl app_reply = ''https://sp.example/reply''"
    by simp
  from miss run_reply run_example forced get acs show ?thesis by simp
qed

subsection \<open>The decoded request\<close>

text \<open>
  Claim C7 does not hold as stated: the block that resolves the destination assigns the
  application's reply URL to the field \<^verbatim>\<open>AssertionConsumerServiceURL\<close> of the decoded request.
  For the request of the example and an application with a reply URL, the request after
  the block differs from the decoded one in that field, and the call returns the field's
  new value as destination.
\<close>

theorem request_field_overwritten:
  "GetSamlResponse_decode env_example ''<AuthnRequest/>'' ''GET'' = Inr req_example
   \<and> AssertionConsumerServiceURL req_example = ''https://sp.example/acs''
   \<and> GetSamlResponse_redirectUrl app_reply ''GET'' req_example =
       Inr (''POST'',
            \<lparr>ID = ''req-1'', Issuer = \<lparr>Url = ''https://sp.example''\<rparr>,
             AssertionConsumerServiceURL = ''https://sp.example/reply''\<rparr>)
   \<and> GetSamlResponse env_example app_reply user_example ''<AuthnRequest/>'' ''idp.example''
       world_example =
     (Returned (''<samlp:Response/>'', ''https://sp.example/reply'', ''POST'', None),
      \<lparr>now_calls = 2, uuid_calls = 3\<rparr>)"
proof -
  have "GetSamlResponse_redirectUrl app_reply ''GET'' req_example =
       Inr (''POST'',
            \<lparr>ID = ''req-1'', Issuer = \<lparr>Url = ''https://sp.example''\<rparr>,
             AssertionConsumerServiceURL = ''https://sp.example/reply''\<rparr>)"
    and "AssertionConsumerServiceURL req_example = ''https://sp.example/acs''"
    by (simp_all add: GetSamlResponse_redirectUrl_def app_reply_def app_example_def
        req_example_def)
  with decode_example run_reply show ?thesis by simp
qed

lemma AuthnRequest_update_same:
  "authnRequest\<lparr>AssertionConsumerServiceURL := AssertionConsumerServiceURL authnRequest\<rparr> =
   (authnRequest :: AuthnRequest)"
  by (cases authnRequest) simp

lemma GetSamlResponse_after_gate:
  assumes "GetSamlResponse_decode E samlRequest ''GET'' = Inr authnRequest"
    and "Url (Issuer authnRequest) \<in> set (RedirectUris application)"
    and "getCertByApplication E application = Some cert"
    and "pem_Decode E (Certificate cert) = Some block_Bytes"
  shows "GetSamlResponse E application user samlRequest host w =
     (if SamlReplyUrl application = '''' \<and> AssertionConsumerServiceURL authnRequest = ''''
      then (Returned ('''', '''', '''', Some MissingDestinationError), w)
      else (case GetSamlResponse_sign E application user
                   (authnRequest\<lparr>AssertionConsumerServiceURL :=
                      if SamlReplyUrl application \<noteq> '''' then SamlReplyUrl application
                      else AssertionConsumerServiceURL authnRequest\<rparr>)
                   host cert (base64_EncodeToString E block_Bytes) w of
              (Panicked p, w') \<Rightarrow> (Panicked p, w')
            | (Returned samlResponse, w') \<Rightarrow>
               (Returned
                  (GetSamlResponse_encode E application
                     (if SamlReplyUrl application \<noteq> '''' then ''POST'' else ''GET'')
                     (authnRequest\<lparr>AssertionConsumerServiceURL :=
                        if SamlReplyUrl application \<noteq> '''' then SamlReplyUrl application
                        else AssertionConsumerServiceURL authnRequest\<rparr>)
                     samlResponse), w')))"
  using assms
  by (simp add: GetSamlResponse_def IsRedirectUriValid_def GetSamlResponse_validated_def
      GetSamlResponse_redirectUrl_def Let_def AuthnRequest_update_same
      cong: prod.case_cong outcome.case_cong)

lemma GetSamlResponse_validated_success:
  assumes "GetSamlResponse_validated E application user authnRequest host method w =
             (Returned (res, dest, m, None), w')"
  shows "\<exists>cert block_Bytes sig xmlBytes.
           getCertByApplication E application = Some cert \<and>
           pem_Decode E (Certificate cert) = Some block_Bytes \<and>
           WriteToBytes E
             (InsertChildAt 1 (ChildElement sig)
                (fst (NewSamlResponse E user (snd (getOriginFromHost E host))
                   (base64_EncodeToString E block_Bytes)
                   (if SamlReplyUrl application \<noteq> '''' then SamlReplyUrl application
                    else AssertionConsumerServiceURL authnRequest)
                   (Url (Issuer authnRequest)) (ID authnRequest) (RedirectUris application) w))) =
             Inr xmlBytes \<and>
           w' = snd (NewSamlResponse E user (snd (getOriginFromHost E host))
                   (base64_EncodeToString E block_Bytes)
                   (if SamlReplyUrl application \<noteq> '''' then SamlReplyUrl application
                    else AssertionConsumerServiceURL authnRequest)
                   (Url (Issuer authnRequest)) (ID authnRequest) (RedirectUris application) w) \<and>
           dest = (if SamlReplyUrl application \<noteq> '''' then SamlReplyUrl application
                   else AssertionConsumerServiceURL authnRequest)"
proof -
  from assms obtain cert where c: "getCertByApplication E application = Some cert"
    by (auto simp: GetSamlResponse_validated_def split: option.splits)
  from assms c obtain block_Bytes where b: "pem_Decode E (Certificate cert) = Some block_Bytes"
    by (auto simp: GetSamlResponse_validated_def split: option.splits)
  let ?acs = "if SamlReplyUrl application \<noteq> '''' then SamlReplyUrl application
              else AssertionConsumerServiceURL authnRequest"
  let ?r = "authnRequest\<lparr>AssertionConsumerServiceURL := ?acs\<rparr>"
  let ?cf = "base64_EncodeToString E block_Bytes"
  from assms c b have nm: "\<not> (SamlReplyUrl application = '''' \<and>
      AssertionConsumerServiceURL authnRequest = '''')"
    by (auto simp: GetSamlResponse_validated_def GetSamlResponse_redirectUrl_def Let_def)
  define method' where "method' = (if SamlReplyUrl application \<noteq> '''' then ''POST'' else method)"
  from nm have r:
    "GetSamlResponse_redirectUrl application method authnRequest = Inr (method', ?r)"
    by (simp add: GetSamlResponse_redirectUrl_def AuthnRequest_update_same method'_def)
  from assms c b r obtain samlResponse where
    s: "GetSamlResponse_sign E application user ?r host cert ?cf w = (Returned samlResponse, w')"
    and e: "GetSamlResponse_encode E application method' ?r samlResponse = (res, dest, m, None)"
    by (auto simp: GetSamlResponse_validated_def Let_def split: outcome.splits prod.splits)
  from GetSamlResponse_sign_Returned [OF s] obtain sig where
    d: "samlResponse = InsertChildAt 1 (ChildElement sig)
          (fst (NewSamlResponse E user (snd (getOriginFromHost E host)) ?cf ?acs
             (Url (Issuer authnRequest)) (ID authnRequest) (RedirectUris application) w))"
    by auto
  from s have w: "w' = snd (NewSamlResponse E user (snd (getOriginFromHost E host)) ?cf ?acs
             (Url (Issuer authnRequest)) (ID authnRequest) (RedirectUris application) w)"
    by (auto simp: GetSamlResponse_sign_def Let_def split_def split: sum.splits)
  from GetSamlResponse_encode_success [OF e] obtain xmlBytes where
    x: "WriteToBytes E samlResponse = Inr xmlBytes" by blast
  from GetSamlResponse_encode_cases [OF e] have dd: "dest = ?acs" by auto
  from c b d w x dd show ?thesis by blast
qed

text \<open>
  Claim C7, amended. The ID and the issuer of the decoded request are never modified. The
  field \<^verbatim>\<open>AssertionConsumerServiceURL\<close> is overwritten with the application's reply URL when
  that URL is set, and is left alone otherwise. This holds for the block that resolves the
  destination and for the whole of \<^verbatim>\<open>GetSamlResponse\<close>: once the issuer is accepted and the
  certificate decodes, the call is the signing and encoding stages run on the decoded
  request with only that field replaced; and whenever the call succeeds, the document it
  serialized is the signed response built from the ID and the issuer URL of the decoded
  request and from the resolved consumer-service URL, which is also the destination
  returned.
\<close>

theorem request_fields_after_decoding:
  "(\<forall>method' authnRequest'.
      GetSamlResponse_redirectUrl application method authnRequest =
        Inr (method', authnRequest') \<longrightarrow>
      ID authnRequest' = ID authnRequest \<and> Issuer authnRequest' = Issuer authnRequest \<and>
      AssertionConsumerServiceURL authnRequest' =
        (if SamlReplyUrl application \<noteq> '''' then SamlReplyUrl application
         else AssertionConsumerServiceURL authnRequest))
   \<and> (\<forall>E' samlResponse res dest m.
        GetSamlResponse_encode E' application method authnRequest samlResponse =
          (res, dest, m, None) \<longrightarrow>
        dest = AssertionConsumerServiceURL authnRequest)
   \<and> (GetSamlResponse_decode E samlRequest ''GET'' = Inr authnRequest \<longrightarrow>
        (\<forall>cert block_Bytes.
           Url (Issuer authnRequest) \<in> set (RedirectUris application) \<and>
           getCertByApplication E application = Some cert \<and>
           pem_Decode E (Certificate cert) = Some block_Bytes \<longrightarrow>
           GetSamlResponse E application user samlRequest host w =
             (if SamlReplyUrl application = '''' \<and>
                 AssertionConsumerServiceURL authnRequest = ''''
              then (Returned ('''', '''', '''', Some MissingDestinationError), w)
              else (case GetSamlResponse_sign E application user
                           (authnRequest\<lparr>AssertionConsumerServiceURL :=
                              if SamlReplyUrl application \<noteq> ''''
                              then SamlReplyUrl application
                              else AssertionConsumerServiceURL authnRequest\<rparr>)
                           host cert (base64_EncodeToString E block_Bytes) w of
                      (Panicked p, w') \<Rightarrow> (Panicked p, w')
                    | (Returned samlResponse, w') \<Rightarrow>
                       (Returned
                          (GetSamlResponse_encode E application
                             (if SamlReplyUrl application \<noteq> '''' then ''POST'' else ''GET'')
                             (authnRequest\<lparr>AssertionConsumerServiceURL :=
                                if SamlReplyUrl application \<noteq> ''''
                                then SamlReplyUrl application
                                else AssertionConsumerServiceURL authnRequest\<rparr>)
                             samlResponse), w'))))
      \<and> (\<forall>res dest m w'.
           GetSamlResponse E application user samlRequest host w =
             (Returned (res, dest, m, None), w') \<longrightarrow>
           (\<exists>cert block_Bytes sig xmlBytes.
              getCertByApplication E application = Some cert \<and>
              pem_Decode E (Certificate cert) = Some block_Bytes \<and>
              WriteToBytes E
                (InsertChildAt 1 (ChildElement sig)
                   (fst (NewSamlResponse E user (snd (getOriginFromHost E host))
                      (base64_EncodeToString E block_Bytes)
                      (if SamlReplyUrl application \<noteq> '''' then SamlReplyUrl application
                       else AssertionConsumerServiceURL authnRequest)
                      (Url (Issuer authnRequest)) (ID authnRequest)
                      (RedirectUris application) w))) = Inr xmlBytes \<and>
              dest = (if SamlReplyUrl application \<noteq> '''' then SamlReplyUrl application
                      else AssertionConsumerServiceURL authnRequest))))"
proof (intro conjI)
  show "\<forall>method' authnRequest'.
      GetSamlResponse_redirectUrl application method authnRequest =
        Inr (method', authnRequest') \<longrightarrow>
      ID authnRequest' = ID authnRequest \<and> Issuer authnRequest' = Issuer authnRequest \<and>
      AssertionConsumerServiceURL authnRequest' =
        (if SamlReplyUrl application \<noteq> '''' then SamlReplyUrl application
         else AssertionConsumerServiceURL authnRequest)"
  proof (intro allI impI)
    fix method' authnRequest'
    assume "GetSamlResponse_redirectUrl application method authnRequest =
      Inr (method', authnRequest')"
    from GetSamlResponse_redirectUrl_cases [OF this]
    show "ID authnRequest' = ID authnRequest \<and> Issuer authnRequest' = Issuer authnRequest \<and>
        AssertionConsumerServiceURL authnRequest' =
          (if SamlReplyUrl application \<noteq> '''' then SamlReplyUrl application
           else AssertionConsumerServiceURL authnRequest)"
      by auto
  qed
next
  show "\<forall>E' samlResponse res dest m.
        GetSamlResponse_encode E' application method authnRequest samlResponse =
          (res, dest, m, None) \<longrightarrow>
        dest = AssertionConsumerServiceURL authnRequest"
  proof (intro allI impI)
    fix E' samlResponse res dest m
    assume "GetSamlResponse_encode E' application method authnRequest samlResponse =
      (res, dest, m, None)"
    from GetSamlResponse_encode_cases [OF this]
    show "dest = AssertionConsumerServiceURL authnRequest"
      by auto
  qed
next
  show "GetSamlResponse_decode E samlRequest ''GET'' = Inr authnRequest \<longrightarrow>
        (\<forall>cert block_Bytes.
           Url (Issuer authnRequest) \<in> set (RedirectUris application) \<and>
           getCertByApplication E application = Some cert \<and>
           pem_Decode E (Certificate cert) = Some block_Bytes \<longrightarrow>
           GetSamlResponse E application user samlRequest host w =
             (if SamlReplyUrl application = '''' \<and>
                 AssertionConsumerServiceURL authnRequest = ''''
              then (Returned ('''', '''', '''', Some MissingDestinationError), w)
              else (case GetSamlResponse_sign E application user
                           (authnRequest\<lparr>AssertionConsumerServiceURL :=
                              if SamlReplyUrl application \<noteq> ''''
                              then SamlReplyUrl application
                              else AssertionConsumerServiceURL authnRequest\<rparr>)
                           host cert (base64_EncodeToString E block_Bytes) w of
                      (Panicked p, w') \<Rightarrow> (Panicked p, w')
                    | (Returned samlResponse, w') \<Rightarrow>
                       (Returned
                          (GetSamlResponse_encode E application
                             (if SamlReplyUrl application \<noteq> '''' then ''POST'' else ''GET'')
                             (authnRequest\<lparr>AssertionConsumerServiceURL :=
                                if SamlReplyUrl application \<noteq> ''''
                                then SamlReplyUrl application
                                else AssertionConsumerServiceURL authnRequest\<rparr>)
                             samlResponse), w'))))
      \<and> (\<forall>res dest m w'.
           GetSamlResponse E application user samlRequest host w =
             (Returned (res, dest, m, None), w') \<longrightarrow>
           (\<exists>cert block_Bytes sig xmlBytes.
              getCertByApplication E application = Some cert \<and>
              pem_Decode E (Certificate cert) = Some block_Bytes \<and>
              WriteToBytes E
                (InsertChildAt 1 (ChildElement sig)
                   (fst (NewSamlResponse E user (snd (getOriginFromHost E host))
                      (base64_EncodeToString E block_Bytes)
                      (if SamlReplyUrl application \<noteq> '''' then SamlReplyUrl application
                       else AssertionConsumerServiceURL authnRequest)
                      (Url (Issuer authnRequest)) (ID authnRequest)
                      (RedirectUris application) w))) = Inr xmlBytes \<and>
              dest = (if SamlReplyUrl application \<noteq> '''' then SamlReplyUrl application
                      else AssertionConsumerServiceURL authnRequest)))"
  proof (rule impI, rule conjI; intro allI impI)
    fix cert block_Bytes
    assume d: "GetSamlResponse_decode E samlRequest ''GET'' = Inr authnRequest"
      and a: "Url (Issuer authnRequest) \<in> set (RedirectUris application) \<and>
           getCertByApplication E application = Some cert \<and>
           pem_Decode E (Certificate cert) = Some block_Bytes"
    from a have "Url (Issuer authnRequest) \<in> set (RedirectUris application)"
      and "getCertByApplication E application = Some cert"
      and "pem_Decode E (Certificate cert) = Some block_Bytes"
      by simp_all
    then show "GetSamlResponse E application user samlRequest host w =
             (if SamlReplyUrl application = '''' \<and>
                 AssertionConsumerServiceURL authnRequest = ''''
              then (Returned ('''', '''', '''', Some MissingDestinationError), w)
              else (case GetSamlResponse_sign E application user
                           (authnRequest\<lparr>AssertionConsumerServiceURL :=
                              if SamlReplyUrl application \<noteq> ''''
                              then SamlReplyUrl application
                              else AssertionConsumerServiceURL authnRequest\<rparr>)
                           host cert (base64_EncodeToString E block_Bytes) w of
                      (Panicked p, w') \<Rightarrow> (Panicked p, w')
                    | (Returned samlResponse, w') \<Rightarrow>
                       (Returned
                          (GetSamlResponse_encode E application
                             (if SamlReplyUrl application \<noteq> '''' then ''POST'' else ''GET'')
                             (authnRequest\<lparr>AssertionConsumerServiceURL :=
                                if SamlReplyUrl application \<noteq> ''''
                                then SamlReplyUrl application
                                else AssertionConsumerServiceURL authnRequest\<rparr>)
                             samlResponse), w')))"
      by (rule GetSamlResponse_after_gate [OF d])
  next
    fix res dest m w'
    assume d: "GetSamlResponse_decode E samlRequest ''GET'' = Inr authnRequest"
      and s: "GetSamlResponse E application user samlRequest host w =
             (Returned (res, dest, m, None), w')"
    from d s have "GetSamlResponse_validated E application user authnRequest host ''GET'' w =
        (Returned (res, dest, m, None), w')"
      by (simp add: GetSamlResponse_def Let_def split: if_splits)
    from GetSamlResponse_validated_success [OF this]
    show "\<exists>cert block_Bytes sig xmlBytes.
              getCertByApplication E application = Some cert \<and>
              pem_Decode E (Certificate cert) = Some block_Bytes \<and>
              WriteToBytes E
                (InsertChildAt 1 (ChildElement sig)
                   (fst (NewSamlResponse E user (snd (getOriginFromHost E host))
                      (base64_EncodeToString E block_Bytes)
                      (if SamlReplyUrl application \<noteq> '''' then SamlReplyUrl application
                       else AssertionConsumerServiceURL authnRequest)
                      (Url (Issuer authnRequest)) (ID authnRequest)
                      (RedirectUris application) w))) = Inr xmlBytes \<and>
              dest = (if SamlReplyUrl application \<noteq> '''' then SamlReplyUrl application
                      else AssertionConsumerServiceURL authnRequest)"
      by blast
  qed
qed

theorem request_fields_after_decoding_witness:
  "GetSamlResponse_redirectUrl app_example ''GET'' req_example = Inr (''GET'', req_example)
   \<and> GetSamlResponse_redirectUrl app_reply ''GET'' req_example =
       Inr (''POST'', req_example\<lparr>AssertionConsumerServiceURL := ''https://sp.example/reply''\<rparr>)
   \<and> ID (req_example\<lparr>AssertionConsumerServiceURL := ''https://sp.example/reply''\<rparr>) = ''req-1''
   \<and> GetSamlResponse_encode env_example app_example ''GET'' req_example
         (NewElement ''samlp:Response'') =
       (''<samlp:Response/>'', ''https://sp.example/acs'', ''GET'', None)
   \<and> GetSamlResponse_decode env_example ''<AuthnRequest/>'' ''GET'' = Inr req_example
   \<and> GetSamlResponse env_example app_reply user_example ''<AuthnRequest/>'' ''idp.example''
       world_example =
     (Returned (''<samlp:Response/>'', ''https://sp.example/reply'', ''POST'', None),
      \<lparr>now_calls = 2, uuid_calls = 3\<rparr>)
   \<and> (\<exists>sig.
        WriteToBytes env_example
          (InsertChildAt 1 (ChildElement sig)
             (fst (NewSamlResponse env_example user_example ''https://idp.example''
                ''CERTIFICATE'' ''https://sp.example/reply'' ''https://sp.example'' ''req-1''
                [''https://sp.example''] world_example))) = Inr ''<samlp:Response/>'')"
proof -
  have 1: "GetSamlResponse_redirectUrl app_example ''GET'' req_example =
      Inr (''GET'', req_example)"
    by (simp add: GetSamlResponse_redirectUrl_def app_example_def req_example_def)
  have 2: "GetSamlResponse_redirectUrl app_reply ''GET'' req_example =
      Inr (''POST'', req_example\<lparr>AssertionConsumerServiceURL := ''https://sp.example/reply''\<rparr>)"
    by (simp add: GetSamlResponse_redirectUrl_def app_reply_def app_example_def req_example_def)
  have 3: "GetSamlResponse_encode env_example app_example ''GET'' req_example
         (NewElement ''samlp:Response'') =
       (''<samlp:Response/>'', ''https://sp.example/acs'', ''GET'', None)"
    by (simp add: GetSamlResponse_encode_def env_example_def app_example_def req_example_def)
  note inst = request_fields_after_decoding [of app_reply "''GET''" req_example env_example
      "''<AuthnRequest/>''" user_example "''idp.example''" world_example]
  from inst [THEN conjunct1, rule_format, OF 2]
  have "ID (req_example\<lparr>AssertionConsumerServiceURL := ''https://sp.example/reply''\<rparr>) =
      ID req_example"
    by simp
  then have 4: "ID (req_example\<lparr>AssertionConsumerServiceURL := ''https://sp.example/reply''\<rparr>) =
      ''req-1''"
    by (simp add: req_example_def)
  from inst [THEN conjunct2, THEN conjunct2, rule_format, OF decode_example,
      THEN conjunct2, rule_format, OF run_reply]
  obtain cert block_Bytes sig xmlBytes where
    c: "getCertByApplication env_example app_reply = Some cert"
    and b: "pem_Decode env_example (Certificate cert) = Some block_Bytes"
    and x: "WriteToBytes env_example
          (InsertChildAt 1 (ChildElement sig)
             (fst (NewSamlResponse env_example user_example
                (snd (getOriginFromHost env_example ''idp.example''))
                (base64_EncodeToString env_example block_Bytes)
                (if SamlReplyUrl app_reply \<noteq> '''' then SamlReplyUrl app_reply
                 else AssertionConsumerServiceURL req_example)
                (Url (Issuer req_example)) (ID req_example) (RedirectUris app_reply)
                world_example))) = Inr xmlBytes"
    by blast
  from c have c': "cert = cert_example"
    by (simp add: env_example_def)
  from b c' have b': "block_Bytes = ''CERTIFICATE''"
    by (simp add: env_example_def cert_example_def)
  have o: "snd (getOriginFromHost env_example ''idp.example'') = ''https://idp.example''"
    and e: "base64_EncodeToString env_example ''CERTIFICATE'' = ''CERTIFICATE''"
    and y: "\<And>doc. WriteToBytes env_example doc = Inr ''<samlp:Response/>''"
    by (simp_all add: env_example_def)
  have f: "(if SamlReplyUrl app_reply \<noteq> '''' then SamlReplyUrl app_reply
            else AssertionConsumerServiceURL req_example) = ''https://sp.example/reply''"
    and g: "Url (Issuer req_example) = ''https://sp.example''"
    and h: "ID req_example = ''req-1''"
    and i: "RedirectUris app_reply = [''https://sp.example'']"
    by (simp_all add: app_reply_def app_example_def req_example_def)
  from x have "WriteToBytes env_example
          (InsertChildAt 1 (ChildElement sig)
             (fst (NewSamlResponse env_example user_example ''https://idp.example''
                ''CERTIFICATE'' ''https://sp.example/reply'' ''https://sp.example'' ''req-1''
                [''https://sp.example''] world_example))) = Inr ''<samlp:Response/>''"
    unfolding b' o e f g h i by (simp only: y)
  then have 5: "\<exists>sig.
        WriteToBytes env_example
          (InsertChildAt 1 (ChildElement sig)
             (fst (NewSamlResponse env_example user_example ''https://idp.example''
                ''CERTIFICATE'' ''https://sp.example/reply'' ''https://sp.example'' ''req-1''
                [''https://sp.example''] world_example))) = Inr ''<samlp:Response/>''"
    by blast
  show ?thesis
    by (intro conjI) (rule 1 2 3 4 5 decode_example run_reply)+
qed

subsection \<open>The method returned on failure\<close>

text \<open>
  Claim C10 does not hold as stated: the failure for a missing destination is neither a
  decompression failure nor a compression failure, and it returns the empty string as
  method, not the selected method \<open>GET\<close>.
\<close>

theorem missing_destination_returns_empty_method:
  "GetSamlResponse env_example app_example user_example ''<AuthnRequest noacs/>''
     ''idp.example'' world_example =
   (Returned ('''', '''', '''', Some MissingDestinationError), world_example)"
  using decode_noacs
  by (simp add: GetSamlResponse_def IsRedirectUriValid_def GetSamlResponse_validated_def
      GetSamlResponse_redirectUrl_def app_example_def req_noacs_def req_example_def
      env_example_def)

lemma GetSamlResponse_failure_cases:
  assumes "GetSamlResponse E application user samlRequest host w =
             (Returned (res, dest, m, Some err), w')"
  shows "res = '''' \<and> dest = '''' \<and>
     ((\<exists>e. err = DecodeError_base64 e \<and> m = ''GET'')
    \<or> (\<exists>e. err = DecodeError_inflate e \<and> m = '''')
    \<or> (\<exists>e. err = MalformedRequestError e \<and> m = ''GET'')
    \<or> (\<exists>e. err = UnauthorizedIssuerError e \<and> m = ''GET'')
    \<or> (err = MissingDestinationError \<and> m = '''')
    \<or> (\<exists>e. err = SerializationError e \<and>
           m = (if SamlReplyUrl application \<noteq> '''' then ''POST'' else ''GET''))
    \<or> (\<exists>e. err = CompressionError_NewWriter e \<and>
           m = (if SamlReplyUrl application \<noteq> '''' then ''POST'' else ''GET''))
    \<or> (\<exists>e. err = CompressionError_Write e \<and> m = '''')
    \<or> (\<exists>e. err = CompressionError_Close e \<and> m = ''''))"
proof (cases "GetSamlResponse_decode E samlRequest ''GET''")
  case (Inl r)
  with assms have "GetSamlResponse_decode E samlRequest ''GET'' = Inl (res, dest, m, Some err)"
    by (simp add: GetSamlResponse_def Let_def)
  from GetSamlResponse_decode_Inl [OF this] show ?thesis
    by (elim disjE conjE exE) simp_all
next
  case (Inr authnRequest)
  show ?thesis
  proof (cases "IsRedirectUriValid application (Url (Issuer authnRequest))")
    case False
    with Inr assms
    have "res = [] \<and> dest = [] \<and> m = ''GET'' \<and>
        err = UnauthorizedIssuerError (Url (Issuer authnRequest))"
      by (auto simp: GetSamlResponse_def Let_def)
    then show ?thesis by simp
  next
    case True
    with Inr assms
    have "GetSamlResponse_validated E application user authnRequest host ''GET'' w =
        (Returned (res, dest, m, Some err), w')"
      by (simp add: GetSamlResponse_def Let_def)
    from GetSamlResponse_validated_cases [OF this]
    show ?thesis
    proof (elim disjE exE conjE)
      assume "(res, dest, m, Some err) = ([], [], [], Some MissingDestinationError)"
      then have "res = [] \<and> dest = [] \<and> m = [] \<and> err = MissingDestinationError"
        by auto
      then show ?thesis by simp
    next
      fix method' authnRequest' cert certificate samlResponse
      assume r: "GetSamlResponse_redirectUrl application ''GET'' authnRequest =
          Inr (method', authnRequest')"
        and e: "GetSamlResponse_encode E application method' authnRequest' samlResponse =
          (res, dest, m, Some err)"
      from GetSamlResponse_redirectUrl_cases [OF r]
      have sel: "method' = (if SamlReplyUrl application \<noteq> [] then ''POST'' else ''GET'')"
        by (elim disjE conjE) simp_all
      from GetSamlResponse_encode_cases [OF e]
      have "res = [] \<and> dest = [] \<and>
        ((\<exists>e. err = SerializationError e \<and> m = method')
       \<or> (\<exists>e. err = CompressionError_NewWriter e \<and> m = method')
       \<or> (\<exists>e. err = CompressionError_Write e \<and> m = [])
       \<or> (\<exists>e. err = CompressionError_Close e \<and> m = []))"
        by simp
      then show ?thesis
        unfolding sel by (elim disjE conjE exE) simp_all
    qed
  qed
qed

text \<open>
  Claim C10, amended. Every failure that \<^verbatim>\<open>GetSamlResponse\<close> returns has an empty payload and
  an empty destination. Its method is the empty string on a decompression failure of the
  request, on a missing destination, and on a write or close failure of the compressor;
  every other failure returns the method selected so far: \<open>GET\<close> up to the issuer check, and
  \<open>POST\<close> or \<open>GET\<close> (as the application has a reply URL or not) on a serialization failure
  and on a failure to create the compressor. The error of the signature is never returned.
\<close>

theorem method_returned_on_failure:
  "\<forall>res dest m err w'.
     GetSamlResponse E application user samlRequest host w =
       (Returned (res, dest, m, Some err), w') \<longrightarrow>
     res = '''' \<and> dest = '''' \<and>
     m = (case err of
            DecodeError_base64 e \<Rightarrow> ''GET''
          | DecodeError_inflate e \<Rightarrow> ''''
          | MalformedRequestError e \<Rightarrow> ''GET''
          | UnauthorizedIssuerError e \<Rightarrow> ''GET''
          | MissingDestinationError \<Rightarrow> ''''
          | SignatureError e \<Rightarrow> m
          | SerializationError e \<Rightarrow>
              (if SamlReplyUrl application \<noteq> '''' then ''POST'' else ''GET'')
          | CompressionError_NewWriter e \<Rightarrow>
              (if SamlReplyUrl application \<noteq> '''' then ''POST'' else ''GET'')
          | CompressionError_Write e \<Rightarrow> ''''
          | CompressionError_Close e \<Rightarrow> '''')
     \<and> (\<forall>e. err \<noteq> SignatureError e)"
proof (intro allI impI)
  fix res dest m err w'
  assume "GetSamlResponse E application user samlRequest host w =
    (Returned (res, dest, m, Some err), w')"
  from GetSamlResponse_failure_cases [OF this]
  show "res = '''' \<and> dest = '''' \<and>
     m = (case err of
            DecodeError_base64 e \<Rightarrow> ''GET''
          | DecodeError_inflate e \<Rightarrow> ''''
          | MalformedRequestError e \<Rightarrow> ''GET''
          | UnauthorizedIssuerError e \<Rightarrow> ''GET''
          | MissingDestinationError \<Rightarrow> ''''
          | SignatureError e \<Rightarrow> m
          | SerializationError e \<Rightarrow>
              (if SamlReplyUrl application \<noteq> '''' then ''POST'' else ''GET'')
          | CompressionError_NewWriter e \<Rightarrow>
              (if SamlReplyUrl application \<noteq> '''' then ''POST'' else ''GET'')
          | CompressionError_Write e \<Rightarrow> ''''
          | CompressionError_Close e \<Rightarrow> '''')
     \<and> (\<forall>e. err \<noteq> SignatureError e)"
    by (elim conjE disjE exE) simp_all
qed

lemma run_other:
  "GetSamlResponse env_example app_other user_example ''<AuthnRequest/>'' ''idp.example''
     world_example =
   (Returned ('''', '''', ''GET'', Some (UnauthorizedIssuerError ''https://sp.example'')),
    world_example)"
  using decode_example
  by (simp add: GetSamlResponse_def IsRedirectUriValid_def app_other_def app_example_def
      req_example_def)

theorem method_returned_on_failure_witness:
  "GetSamlResponse env_example app_example user_example ''<AuthnRequest noacs/>''
     ''idp.example'' world_example =
     (Returned ('''', '''', '''', Some MissingDestinationError), world_example)
   \<and> GetSamlResponse env_example app_other user_example ''<AuthnRequest/>'' ''idp.example''
       world_example =
     (Returned ('''', '''', ''GET'', Some (UnauthorizedIssuerError ''https://sp.example'')),
      world_example)
   \<and> (case MissingDestinationError of
         DecodeError_base64 e \<Rightarrow> ''GET''
       | DecodeError_inflate e \<Rightarrow> ''''
       | MalformedRequestError e \<Rightarrow> ''GET''
       | UnauthorizedIssuerError e \<Rightarrow> ''GET''
       | MissingDestinationError \<Rightarrow> ''''
       | SignatureError e \<Rightarrow> ''''
       | SerializationError e \<Rightarrow>
           (if SamlReplyUrl app_example \<noteq> '''' then ''POST'' else ''GET'')
       | CompressionError_NewWriter e \<Rightarrow>
           (if SamlReplyUrl app_example \<noteq> '''' then ''POST'' else ''GET'')
       | CompressionError_Write e \<Rightarrow> ''''
       | CompressionError_Close e \<Rightarrow> '''') = ''''"
proof -
  note miss = method_returned_on_failure [of env_example app_example user_example
      "''<AuthnRequest noacs/>''" "''idp.example''" world_example, rule_format, OF run_noacs]
  note other = method_returned_on_failure [of env_example app_other user_example
      "''<AuthnRequest/>''" "''idp.example''" world_example, rule_format, OF run_other]
  from miss other run_noacs run_other show ?thesis by simp
qed

subsection \<open>A failing signature\<close>

lemma GetSamlResponse_sign_failure:
  assumes "ConstructSignature E
             \<lparr>X509Key.X509Certificate = certificate, X509Key.PrivateKey = Cert.PrivateKey cert\<rparr>
             (fst (NewSamlResponse E user (snd (getOriginFromHost E host)) certificate
                (AssertionConsumerServiceURL authnRequest) (Url (Issuer authnRequest))
                (ID authnRequest) (RedirectUris application) w)) True = Inl err"
  shows "fst (GetSamlResponse_sign E application user authnRequest host cert certificate w) =
           Panicked nil_dereference"
  using assms
  by (simp add: GetSamlResponse_sign_def Let_def split_def)

text \<open>
  Claim C3, evaluated where the code departs from it. The certificate of the application
  has a private key that does not parse, so the key store returns an error and the
  signature cannot be constructed. \<^verbatim>\<open>GetSamlResponse\<close> does not return that error: the
  response has been built, the nil signature is inserted, and the call panics on the nil
  pointer. (No failure the function returns is ever a \<open>SignatureError\<close>.)
\<close>

theorem signature_failure_panics:
  "GetKeyPair env_badkey
     \<lparr>X509Key.X509Certificate = ''CERTIFICATE'', X509Key.PrivateKey = ''not a key''\<rparr> =
     (None, ''CERTIFICATE'', Some ''invalid key'')
   \<and> GetSamlResponse env_badkey app_example user_example ''<AuthnRequest/>'' ''idp.example''
       world_example =
     (Panicked nil_dereference, \<lparr>now_calls = 2, uuid_calls = 3\<rparr>)"
proof -
  have k: "GetKeyPair env_badkey
     \<lparr>X509Key.X509Certificate = ''CERTIFICATE'', X509Key.PrivateKey = ''not a key''\<rparr> =
     (None, ''CERTIFICATE'', Some ''invalid key'')"
    by (simp add: GetKeyPair_def env_badkey_def env_example_def)
  have d: "GetSamlResponse_decode env_badkey ''<AuthnRequest/>'' ''GET'' = Inr req_example"
    by (simp add: GetSamlResponse_decode_def env_badkey_def env_example_def)
  have s: "GetSamlResponse_sign env_badkey app_example user_example req_example ''idp.example''
      \<lparr>Certificate = ''CERTIFICATE'', Cert.PrivateKey = ''not a key''\<rparr> ''CERTIFICATE''
      world_example =
     (Panicked nil_dereference, \<lparr>now_calls = 2, uuid_calls = 3\<rparr>)"
    by (simp add: GetSamlResponse_sign_def ConstructSignature_def k split_def Let_def
        snd_NewSamlResponse world_example_def)
       (simp add: env_badkey_def env_example_def snd_NewSamlResponse)
  have c: "getCertByApplication env_badkey app_example =
      Some \<lparr>Certificate = ''CERTIFICATE'', Cert.PrivateKey = ''not a key''\<rparr>"
    and p: "pem_Decode env_badkey ''CERTIFICATE'' = Some ''CERTIFICATE''"
    and b: "base64_EncodeToString env_badkey ''CERTIFICATE'' = ''CERTIFICATE''"
    by (simp_all add: env_badkey_def env_example_def)
  have r: "GetSamlResponse_redirectUrl app_example ''GET'' req_example =
      Inr (''GET'', req_example)"
    by (simp add: GetSamlResponse_redirectUrl_def app_example_def req_example_def)
  have v: "GetSamlResponse_validated env_badkey app_example user_example req_example
      ''idp.example'' ''GET'' world_example =
     (Panicked nil_dereference, \<lparr>now_calls = 2, uuid_calls = 3\<rparr>)"
    by (simp add: GetSamlResponse_validated_def c p b r s)
  from d v have "GetSamlResponse env_badkey app_example user_example ''<AuthnRequest/>''
      ''idp.example'' world_example =
     (Panicked nil_dereference, \<lparr>now_calls = 2, uuid_calls = 3\<rparr>)"
    by (simp add: GetSamlResponse_def IsRedirectUriValid_def app_example_def req_example_def)
  with k show ?thesis by simp
qed

subsection \<open>Metadata\<close>

text \<open>
  Claim C8. Whenever the application's certificate is found and decodes, \<^verbatim>\<open>GetSamlMeta\<close>
  returns a descriptor (it panics otherwise), and the single-sign-on service of every
  descriptor it returns has the HTTP-Redirect binding and the location
  \<open>{frontendOrigin}/login/saml/authorize/{owner}/{name}\<close>, where the frontend origin is
  the first result of \<^verbatim>\<open>getOriginFromHost(host)\<close>.
\<close>

theorem metadata_sso_location:
  "(\<forall>d. GetSamlMeta E application host = Returned d \<longrightarrow>
      Location (SingleSignOnService (IdpSSODescriptor d)) =
        fst (getOriginFromHost E host) @ ''/login/saml/authorize/'' @ Owner application @ ''/''
          @ Application.Name application
      \<and> Binding (SingleSignOnService (IdpSSODescriptor d)) =
        ''urn:oasis:names:tc:SAML:2.0:bindings:HTTP-Redirect'')
   \<and> (\<forall>cert block_Bytes.
        getCertByApplication E application = Some cert \<and>
        pem_Decode E (Certificate cert) = Some block_Bytes \<longrightarrow>
        (\<exists>d. GetSamlMeta E application host = Returned d))"
  by (auto simp: GetSamlMeta_def Let_def split_def split: option.splits)

theorem metadata_sso_location_witness:
  "(\<exists>d. GetSamlMeta env_example app_example ''idp.example'' = Returned d
      \<and> Location (SingleSignOnService (IdpSSODescriptor d)) =
          ''https://idp.example/login/saml/authorize/admin/app''
      \<and> Binding (SingleSignOnService (IdpSSODescriptor d)) =
          ''urn:oasis:names:tc:SAML:2.0:bindings:HTTP-Redirect'')"
proof -
  note inst = metadata_sso_location [of env_example app_example "''idp.example''"]
  have "getCertByApplication env_example app_example = Some cert_example \<and>
      pem_Decode env_example (Certificate cert_example) = Some ''CERTIFICATE''"
    by (simp add: env_example_def cert_example_def)
  with inst obtain d where d: "GetSamlMeta env_example app_example ''idp.example'' = Returned d"
    by blast
  with inst have "Location (SingleSignOnService (IdpSSODescriptor d)) =
        fst (getOriginFromHost env_example ''idp.example'') @ ''/login/saml/authorize/''
          @ Owner app_example @ ''/'' @ Application.Name app_example
      \<and> Binding (SingleSignOnService (IdpSSODescriptor d)) =
        ''urn:oasis:names:tc:SAML:2.0:bindings:HTTP-Redirect''"
    by blast
  then have "Location (SingleSignOnService (IdpSSODescriptor d)) =
          ''https://idp.example/login/saml/authorize/admin/app''
      \<and> Binding (SingleSignOnService (IdpSSODescriptor d)) =
          ''urn:oasis:names:tc:SAML:2.0:bindings:HTTP-Redirect''"
    by (simp add: env_example_def app_example_def)
  with d show ?thesis by blast
qed

subsection \<open>The legacy builder's panic\<close>

lemma json_Unmarshal_type_error:
  assumes "(k, v) \<in> set members" and "\<not> json_string_member v"
  shows "\<exists>err. json_Unmarshal (Some members) = Inl err"
proof -
  from assms have "\<exists>x. x \<in> set members \<and> (case x of (k, v) \<Rightarrow> \<not> json_string_member v)"
    by auto
  then have "find (\<lambda>(k, v). \<not> json_string_member v) members \<noteq> None"
    by (simp add: find_None_iff)
  then show ?thesis
    by (auto simp: json_Unmarshal_def split: option.splits)
qed

lemma NewSamlResponse11_panics:
  "json_Unmarshal (json_Marshal E user) = Inl err \<Longrightarrow>
     fst (NewSamlResponse11 E user requestID host w) = Panicked err"
  by (simp add: NewSamlResponse11_def Let_def split_def)

text \<open>
  Claim C9. When \<^verbatim>\<open>json.Unmarshal\<close> of the serialized user into the string map fails,
  \<^verbatim>\<open>NewSamlResponse11\<close> panics with that error: its result is a panic, not a returned value.
  The branch is reachable: it is taken for every user whose serialized form has a member
  that is neither a string nor null (a number, a boolean, an array, an object), and when
  the user cannot be serialized at all.
\<close>

theorem legacy_builder_panics:
  "(\<forall>err. json_Unmarshal (json_Marshal E user) = Inl err \<longrightarrow>
      fst (NewSamlResponse11 E user requestID host w) = Panicked err)
   \<and> (\<forall>members k v.
        json_Marshal E user = Some members \<and> (k, v) \<in> set members \<and>
        \<not> json_string_member v \<longrightarrow>
        (\<exists>err. fst (NewSamlResponse11 E user requestID host w) = Panicked err))
   \<and> (json_Marshal E user = None \<longrightarrow>
        fst (NewSamlResponse11 E user requestID host w) =
          Panicked ''unexpected end of JSON input'')"
proof (intro conjI allI impI)
  fix err
  assume "json_Unmarshal (json_Marshal E user) = Inl err"
  then show "fst (NewSamlResponse11 E user requestID host w) = Panicked err"
    by (rule NewSamlResponse11_panics)
next
  fix members k v
  assume a: "json_Marshal E user = Some members \<and> (k, v) \<in> set members \<and>
    \<not> json_string_member v"
  then obtain err where "json_Unmarshal (json_Marshal E user) = Inl err"
    using json_Unmarshal_type_error [of k v members] by auto
  then have "fst (NewSamlResponse11 E user requestID host w) = Panicked err"
    by (rule NewSamlResponse11_panics)
  then show "\<exists>err. fst (NewSamlResponse11 E user requestID host w) = Panicked err" ..
next
  assume "json_Marshal E user = None"
  then have "json_Unmarshal (json_Marshal E user) = Inl ''unexpected end of JSON input''"
    by (simp add: json_Unmarshal_def)
  then show "fst (NewSamlResponse11 E user requestID host w) =
      Panicked ''unexpected end of JSON input''"
    by (rule NewSamlResponse11_panics)
qed

theorem legacy_builder_panics_witness:
  "json_Marshal env_score user_example = Some [(''name'', JString ''alice''), (''score'', JNumber 0)]
   \<and> fst (NewSamlResponse11 env_score user_example ''req-1'' ''https://idp.example''
        world_example) =
     Panicked ''json: cannot unmarshal number into Go struct field .score of type string''"
proof -
  have m: "json_Marshal env_score user_example =
      Some [(''name'', JString ''alice''), (''score'', JNumber 0)]"
    by (simp add: env_score_def env_example_def user_example_def)
  then have "json_Unmarshal (json_Marshal env_score user_example) =
      Inl ''json: cannot unmarshal number into Go struct field .score of type string''"
    by (simp add: json_Unmarshal_def)
  with legacy_builder_panics [of env_score user_example "''req-1''" "''https://idp.example''"
      world_example]
  have "fst (NewSamlResponse11 env_score user_example ''req-1'' ''https://idp.example''
        world_example) =
     Panicked ''json: cannot unmarshal number into Go struct field .score of type string''"
    by blast
  with m show ?thesis by simp
qed

end
